theory Spec2Isabelle
  imports Main "HOL-Library.AList" "HOL-Library.Sublist"
begin

section \<open>Variant-analysis result export and monitoring\<close>

text \<open>
  A shallow embedding of the result-export pipeline (\<^verbatim>\<open>src/unnamed/part_004\<close>), of the
  command wrapper (\<^verbatim>\<open>common/vscode/commands.ts\<close>), of the query-language table
  (\<^verbatim>\<open>src/unnamed/part_003\<close>) and of the monitoring loop that the monitor test drives.
  Asynchronous functions are modelled by what they do in order: a trace of the effects
  they perform on their collaborators, and either the value they resolve to or the
  exception they reject with.
\<close>

subsection \<open>Strings and numbers as JavaScript renders them\<close>

definition digits10 :: string where
  "digits10 = ''0123456789''"

definition digitChar :: "nat \<Rightarrow> char" where
  "digitChar n = digits10 ! (n mod 10)"

definition isDigit :: "char \<Rightarrow> bool" where
  "isDigit c = (c \<in> set digits10)"

text \<open>
  Template-literal rendering of a non-negative integer \<^verbatim>\<open>number\<close>: its decimal digits,
  no sign, no leading zero (JavaScript switches to exponent notation only from
  \<open>10\<^sup>2\<^sup>1\<close> on, far above any count handled here).
\<close>

fun numberToString :: "nat \<Rightarrow> string" where
  "numberToString n =
     (if n < 10 then [digitChar n] else numberToString (n div 10) @ [digitChar n])"

declare numberToString.simps [simp del]

subsection \<open>Query languages (part\_003)\<close>

datatype QueryLanguage = CSharp | Cpp | Go | Java | Javascript | Python | Ruby | Swift

text \<open>The string value of each member of the \<^verbatim>\<open>QueryLanguage\<close> enum.\<close>

fun queryLanguageValue :: "QueryLanguage \<Rightarrow> string" where
  "queryLanguageValue CSharp = ''csharp''"
| "queryLanguageValue Cpp = ''cpp''"
| "queryLanguageValue Go = ''go''"
| "queryLanguageValue Java = ''java''"
| "queryLanguageValue Javascript = ''javascript''"
| "queryLanguageValue Python = ''python''"
| "queryLanguageValue Ruby = ''ruby''"
| "queryLanguageValue Swift = ''swift''"

subsection \<open>The data model\<close>

text \<open>
  Modelled from the spec: the declarations of \<^verbatim>\<open>shared/variant-analysis\<close> are not
  among the sources. The records keep the fields that the export pipeline and the
  monitor read, under the names the sources use for them (prefixed where two records
  share a field name): a job has an identity, a query (name and language), an overall
  status, an optional failure classification and its scanned repositories; a scanned
  repository has an identity (id, full name, star count), an analysis status and optional
  result metadata (result count, artifact size); a download state is kept per repository id.
\<close>

datatype VariantAnalysisStatus = InProgress | Succeeded | Failed | Canceled

datatype VariantAnalysisRepoStatus =
  RepoPending | RepoInProgress | RepoSucceeded | RepoFailed

datatype VariantAnalysisScannedRepositoryDownloadStatus =
  DownloadNone | DownloadInProgress | DownloadSucceeded | DownloadFailed

record Repository =
  repo_id :: nat
  fullName :: string
  stargazersCount :: nat

record VariantAnalysisScannedRepository =
  repository :: Repository
  analysisStatus :: VariantAnalysisRepoStatus
  resultCount :: "nat option"
  artifactSizeInBytes :: "nat option"

record VariantAnalysisScannedRepositoryState =
  repositoryId :: nat
  downloadStatus :: VariantAnalysisScannedRepositoryDownloadStatus

record VariantAnalysisQuery =
  query_name :: string
  language :: QueryLanguage

record 'f VariantAnalysis =
  va_id :: nat
  query :: VariantAnalysisQuery
  status :: VariantAnalysisStatus
  failureReason :: "'f option"
  scannedRepos :: "VariantAnalysisScannedRepository list"

subsection \<open>The export description (part\_004, lines 313--331)\<close>

text \<open>
  Modelled from the spec: \<^verbatim>\<open>pluralize\<close> of \<^verbatim>\<open>pure/word\<close> is not among the sources.
  The spec asks for the count followed by the correctly pluralised word: the singular
  exactly when the count is 1. Every caller in the pipeline passes a defined count.
\<close>

definition pluralize :: "nat \<Rightarrow> string \<Rightarrow> string \<Rightarrow> string" where
  "pluralize numItems singular plural =
     numberToString numItems @ '' '' @ (if numItems = 1 then singular else plural)"

text \<open>
  Of a \<^verbatim>\<open>RepositorySummary\<close> the description reads the result count only, which
  it defaults to 0 when absent (\<^verbatim>\<open>summary.resultCount ?? 0\<close>).
\<close>

record RepositorySummary =
  summary_fileName :: string
  summary_resultCount :: "nat option"

definition buildVariantAnalysisGistDescription ::
  "'f VariantAnalysis \<Rightarrow> RepositorySummary list \<Rightarrow> string" where
  "buildVariantAnalysisGistDescription variantAnalysis summaries =
     (let resultCountTotal =
            foldl (\<lambda>acc summary. acc + (case summary_resultCount summary of
                                           None \<Rightarrow> 0 | Some n \<Rightarrow> n)) 0 summaries;
          resultLabel = pluralize resultCountTotal ''result'' ''results'';
          repositoryLabel =
            (if length summaries \<noteq> 0
             then ''('' @ pluralize (length summaries) ''repository'' ''repositories'' @ '')''
             else '''')
      in query_name (query variantAnalysis) @ '' ('' @
         queryLanguageValue (language (query variantAnalysis)) @ '') '' @
         resultLabel @ '' '' @ repositoryLabel)"

subsection \<open>Exceptions, effects and asynchronous results\<close>

text \<open>
  Modelled from the spec: the class \<^verbatim>\<open>UserCancellationException\<close> of \<^verbatim>\<open>progress\<close> is
  not among the sources. A cancellation carries its message and a flag that tells a
  silent cancellation from one that is shown to the user; built from a message alone
  it is not silent. \<open>Error\<close> stands for every other thrown value, with its message.
\<close>

datatype exn = UserCancellationException string bool | Error string

datatype QuickPickItem = GistOption | LocalMarkdownOption | OtherItem string

datatype checkpoint =
  AfterLookup | AfterFormat | BeforeGenerate | BeforeExport | BeforeWrite

text \<open>
  What an asynchronous function does to its collaborators, in the order it does it.
  \<open>Progress maxStep step message\<close> is a call of the progress callback; the file-system
  effects carry the path (and for a write the data and the encoding).
\<close>

datatype effect =
    Log string
  | ShowAndLogWarningMessage string
  | ShowAndLogExceptionWithTelemetry string string string
  | SendCommandUsage string int "exn option"
  | Progress nat nat string
  | ShowQuickPick "QuickPickItem list" string
  | LoadResults nat string bool
  | EnsureDir string
  | WriteFile string string string
  | CreateGist string "(string \<times> string) list"
  | ShowInformationMessageWithAction string string
  | OpenTextDocument string
  | ShowTextDocument string
  | ExecuteCommand string string

text \<open>
  An awaited call: the effects it performed, and the exception it rejected with
  (\<open>Inl\<close>) or the value it resolved to (\<open>Inr\<close>).
\<close>

type_synonym 'a io = "effect list \<times> (exn + 'a)"

definition io_return :: "'a \<Rightarrow> 'a io" where
  "io_return v = ([], Inr v)"

definition io_throw :: "exn \<Rightarrow> 'a io" where
  "io_throw e = ([], Inl e)"

definition io_emit :: "effect \<Rightarrow> unit io" where
  "io_emit eff = ([eff], Inr ())"

definition io_bind :: "'a io \<Rightarrow> ('a \<Rightarrow> 'b io) \<Rightarrow> 'b io" where
  "io_bind m f =
     (case m of
        (tr, Inl e) \<Rightarrow> (tr, Inl e)
      | (tr, Inr v) \<Rightarrow> (case f v of (tr', r) \<Rightarrow> (tr @ tr', r)))"

definition io_when :: "bool \<Rightarrow> unit io \<Rightarrow> unit io" where
  "io_when b m = (if b then m else io_return ())"

subsection \<open>The command wrapper (commands.ts, lines 36--81)\<close>

text \<open>
  The helpers \<^verbatim>\<open>getErrorMessage\<close>, \<^verbatim>\<open>getErrorStack\<close> and the rendering of a thrown
  value in a template are not among the sources and are taken as parameters, with the
  two readings of the clock and whether a telemetry listener is installed.
\<close>

record CommandEnv =
  getErrorMessage :: "exn \<Rightarrow> string"
  getErrorStack :: "exn \<Rightarrow> string"
  stringOf :: "exn \<Rightarrow> string"
  telemetryListener :: bool
  startTime :: int
  endTime :: int

text \<open>
  The full text of the redactable message
  \<^verbatim>\<open>${getErrorMessage(e) || e} (${commandId})\<close>.
\<close>

definition errorMessage_fullMessage :: "CommandEnv \<Rightarrow> exn \<Rightarrow> string \<Rightarrow> string" where
  "errorMessage_fullMessage env e commandId =
     (if getErrorMessage env e \<noteq> [] then getErrorMessage env e else stringOf env e) @
     '' ('' @ commandId @ '')''"

definition sendCommandUsage :: "CommandEnv \<Rightarrow> string \<Rightarrow> exn option \<Rightarrow> effect list" where
  "sendCommandUsage env commandId error =
     (if telemetryListener env
      then [SendCommandUsage commandId (endTime env - startTime env) error] else [])"

text \<open>
  The handler that \<^verbatim>\<open>registerCommandWithErrorHandling\<close> registers, run on the outcome
  of the task: \<open>try\<close> returns the task's value, \<open>catch\<close> reports the exception and
  returns \<^verbatim>\<open>undefined\<close> (\<open>None\<close>), \<open>finally\<close> sends the command usage.
\<close>

definition registerCommandWithErrorHandling ::
  "CommandEnv \<Rightarrow> string \<Rightarrow> 'a io \<Rightarrow> 'a option io" where
  "registerCommandWithErrorHandling env commandId task =
     (case task of
        (tr, Inr v) \<Rightarrow> (tr @ sendCommandUsage env commandId None, Inr (Some v))
      | (tr, Inl e) \<Rightarrow>
          (let fullMessage = errorMessage_fullMessage env e commandId;
               errorStack = getErrorStack env e;
               report =
                 (case e of
                    UserCancellationException m silent \<Rightarrow>
                      (if silent then [Log fullMessage]
                       else [ShowAndLogWarningMessage fullMessage])
                  | Error m \<Rightarrow>
                      [ShowAndLogExceptionWithTelemetry fullMessage
                         (if errorStack \<noteq> [] then fullMessage @ [CHR 0x0A] @ errorStack
                          else fullMessage)
                         commandId])
           in (tr @ report @ sendCommandUsage env commandId (Some e), Inr None)))"

subsection \<open>The export destination: time stamp and path (part\_004, lines 125--139)\<close>

text \<open>
  The reading of the clock by \<^verbatim>\<open>new Date()\<close>, in its UTC fields (the month counted
  from 1, as \<^verbatim>\<open>toISOString\<close> prints it).
\<close>

record Date =
  utcFullYear :: nat
  utcMonth :: nat
  utcDate :: nat
  utcHours :: nat
  utcMinutes :: nat
  utcSeconds :: nat
  utcMilliseconds :: nat

definition padStart :: "nat \<Rightarrow> string \<Rightarrow> string" where
  "padStart targetLength s = replicate (targetLength - length s) (CHR ''0'') @ s"

text \<open>
  \<^verbatim>\<open>Date.prototype.toISOString\<close>: \<^verbatim>\<open>YYYY-MM-DDTHH:mm:ss.sssZ\<close>, and the expanded year
  \<^verbatim>\<open>+YYYYYY\<close> beyond the year 9999.
\<close>

definition toISOString :: "Date \<Rightarrow> string" where
  "toISOString d =
     (if utcFullYear d \<le> 9999 then padStart 4 (numberToString (utcFullYear d))
      else ''+'' @ padStart 6 (numberToString (utcFullYear d))) @ ''-'' @
     padStart 2 (numberToString (utcMonth d)) @ ''-'' @
     padStart 2 (numberToString (utcDate d)) @ ''T'' @
     padStart 2 (numberToString (utcHours d)) @ '':'' @
     padStart 2 (numberToString (utcMinutes d)) @ '':'' @
     padStart 2 (numberToString (utcSeconds d)) @ ''.'' @
     padStart 3 (numberToString (utcMilliseconds d)) @ ''Z''"

text \<open>\<^verbatim>\<open>.replace(/[-:]/g, "")\<close>: every hyphen and every colon is dropped.\<close>

definition removeDashesAndColons :: "string \<Rightarrow> string" where
  "removeDashesAndColons s = filter (\<lambda>c. c \<noteq> CHR ''-'' \<and> c \<noteq> CHR '':'') s"

text \<open>
  \<^verbatim>\<open>.replace(/\.\d+Z$/, "Z")\<close>: the leftmost dot that is followed by one or more
  digits and a final \<^verbatim>\<open>Z\<close> is replaced, with all that follows it, by \<^verbatim>\<open>Z\<close>; a string
  without such a dot is returned as it is.
\<close>

definition matchesDigitsZ :: "string \<Rightarrow> bool" where
  "matchesDigitsZ s =
     (s \<noteq> [] \<and> last s = CHR ''Z'' \<and> butlast s \<noteq> [] \<and> list_all isDigit (butlast s))"

fun replaceFractionZ :: "string \<Rightarrow> string" where
  "replaceFractionZ [] = []"
| "replaceFractionZ (c # cs) =
     (if c = CHR ''.'' \<and> matchesDigitsZ cs then ''Z'' else c # replaceFractionZ cs)"

definition formattedDate :: "Date \<Rightarrow> string" where
  "formattedDate d = replaceFractionZ (removeDashesAndColons (toISOString d))"

text \<open>
  \<^verbatim>\<open>path.join\<close> of Node.js for POSIX paths: the non-empty arguments are joined by a
  slash and the result is normalised, segment by segment: an empty segment and \<^verbatim>\<open>.\<close>
  are dropped, \<^verbatim>\<open>..\<close> removes the segment before it (or is kept, in a relative path,
  when there is none to remove).
\<close>

fun splitPath :: "string \<Rightarrow> string list" where
  "splitPath [] = [[]]"
| "splitPath (c # cs) =
     (if c = CHR ''/'' then [] # splitPath cs
      else (case splitPath cs of [] \<Rightarrow> [[c]] | seg # segs \<Rightarrow> (c # seg) # segs))"

fun joinWith :: "string \<Rightarrow> string list \<Rightarrow> string" where
  "joinWith sep [] = []"
| "joinWith sep [x] = x"
| "joinWith sep (x # y # ys) = x @ sep @ joinWith sep (y # ys)"

definition normalizeSegment :: "bool \<Rightarrow> string list \<Rightarrow> string \<Rightarrow> string list" where
  "normalizeSegment allowAboveRoot res seg =
     (if seg = [] \<or> seg = ''.'' then res
      else if seg = ''..'' then
        (if res \<noteq> [] \<and> last res \<noteq> ''..'' then butlast res
         else if allowAboveRoot then res @ [''..''] else res)
      else res @ [seg])"

definition normalizeString :: "string \<Rightarrow> bool \<Rightarrow> string" where
  "normalizeString path allowAboveRoot =
     joinWith ''/'' (foldl (normalizeSegment allowAboveRoot) [] (splitPath path))"

definition normalize_posix :: "string \<Rightarrow> string" where
  "normalize_posix path =
     (if path = [] then ''.''
      else
        (let isAbsolute = (hd path = CHR ''/'');
             trailingSeparator = (last path = CHR ''/'');
             p = normalizeString path (\<not> isAbsolute)
         in if p = [] then (if isAbsolute then ''/'' else if trailingSeparator then ''./'' else ''.'')
            else (if isAbsolute then ''/'' else []) @ p @
                 (if trailingSeparator then ''/'' else [])))"

definition join :: "string list \<Rightarrow> string" where
  "join paths =
     (let joined = joinWith ''/'' (filter (\<lambda>arg. arg \<noteq> []) paths)
      in if joined = [] then ''.'' else normalize_posix joined)"

definition exportedResultsDirectory :: "string \<Rightarrow> Date \<Rightarrow> string" where
  "exportedResultsDirectory exportDirectory now =
     join [exportDirectory, ''exported-results'', ''results_'' @ formattedDate now]"

subsection \<open>The collaborators of the export pipeline\<close>

datatype ExportFormat = Gist | Local

text \<open>The sort keys that \<^verbatim>\<open>RepositoriesSort.tsx\<close> offers.\<close>

datatype SortKey = Name | ResultsCount | Stars | LastUpdated

text \<open>
  Modelled from the spec: the declaration of \<^verbatim>\<open>RepositoriesFilterSortStateWithIds\<close> is
  not among the sources; the criteria are a configuration object with the filter text
  and the sort key (and, ``with ids'', an optional selection of repository ids).
\<close>

record RepositoriesFilterSortStateWithIds =
  searchValue :: string
  sortKey :: SortKey
  repositoryIds :: "nat list option"

record MarkdownFile =
  fileName :: string
  content :: "string list"

text \<open>
  What a call of \<^verbatim>\<open>next\<close> on an asynchronous iterator resolves to: a value, or
  \<^verbatim>\<open>done\<close>.
\<close>

datatype 'a IteratorResult = IterValue 'a | IterDone

text \<open>
  An asynchronous function that is handed an asynchronous iterable, as the iterable
  sees it: the function resolves with a value, it rejects with an exception, or it awaits
  \<^verbatim>\<open>next\<close> and goes on according to what that call resolved to or rejected with.
  Whatever the function does with the values is its own affair; all that it can do to
  the iterable is ask for the next value, finitely often.
\<close>

datatype ('a, 'b) consumer =
    Resolve 'b
  | Reject exn
  | AwaitNext "exn + 'a IteratorResult \<Rightarrow> ('a, 'b) consumer"

text \<open>
  What the pipeline asks of its surroundings. The manager's look-ups, the filter-and-sort
  function of \<^verbatim>\<open>pure/variant-analysis-filter-sort\<close> and the Markdown generator of
  \<^verbatim>\<open>markdown-generation\<close> are not among the sources and are parameters; the Markdown
  generator, which is handed the iterable of the results, is any consumer of that
  iterable that ends with the Markdown files and the summaries.
  \<open>showQuickPick\<close> is the user's answer to
  the format picker (\<open>None\<close> when it is dismissed), \<open>isCancellationRequested\<close> the value
  of the cancellation token at each place where it is polled, \<open>currentDate\<close> the clock,
  \<open>fsError\<close> the exception with which a file-system operation rejects (\<open>None\<close> when it
  succeeds) and \<open>showInformationMessageWithAction\<close> whether the user presses the
  button of a notification.
\<close>

record ('f, 'r) ExportEnv =
  getVariantAnalysis :: "nat \<Rightarrow> 'f VariantAnalysis option"
  getRepoStates :: "nat \<Rightarrow> VariantAnalysisScannedRepositoryState list"
  getVariantAnalysisStorageLocation :: "nat \<Rightarrow> string"
  loadResults :: "nat \<Rightarrow> string \<Rightarrow> bool \<Rightarrow> exn + 'r"
  filterAndSortRepositoriesWithResults ::
    "VariantAnalysisScannedRepository list \<Rightarrow> RepositoriesFilterSortStateWithIds option
       \<Rightarrow> VariantAnalysisScannedRepository list option"
  generateVariantAnalysisMarkdown ::
    "'f VariantAnalysis \<Rightarrow> nat \<Rightarrow> ExportFormat
       \<Rightarrow> (VariantAnalysisScannedRepository \<times> 'r,
           MarkdownFile list \<times> RepositorySummary list) consumer"
  showQuickPick :: "QuickPickItem option"
  isCancellationRequested :: "checkpoint \<Rightarrow> bool"
  currentDate :: Date
  fsError :: "effect \<Rightarrow> exn option"
  createGist :: "string \<Rightarrow> (string \<times> string) list \<Rightarrow> exn + string option"
  showInformationMessageWithAction :: "string \<Rightarrow> string \<Rightarrow> bool"

definition MAX_VARIANT_ANALYSIS_EXPORT_PROGRESS_STEPS :: nat where
  "MAX_VARIANT_ANALYSIS_EXPORT_PROGRESS_STEPS = 2"

text \<open>
  \<^verbatim>\<open>if (token?.isCancellationRequested) throw new UserCancellationException("Cancelled")\<close>
  at the place \<open>cp\<close>; no token, no check.
\<close>

definition checkCancelled :: "(checkpoint \<Rightarrow> bool) option \<Rightarrow> checkpoint \<Rightarrow> unit io" where
  "checkCancelled token cp =
     (case token of
        None \<Rightarrow> io_return ()
      | Some isCancelled \<Rightarrow>
          (if isCancelled cp then io_throw (UserCancellationException ''Cancelled'' False)
           else io_return ()))"

text \<open>A file-system call: it rejects with the environment's error, or it is performed.\<close>

definition fsCall :: "('f, 'r) ExportEnv \<Rightarrow> effect \<Rightarrow> unit io" where
  "fsCall env eff = (case fsError env eff of Some e \<Rightarrow> io_throw e | None \<Rightarrow> io_emit eff)"

subsection \<open>Choosing the format (part\_004, lines 206--237)\<close>

definition label :: "QuickPickItem \<Rightarrow> string" where
  "label item =
     (case item of
        GistOption \<Rightarrow> ''$(ports-open-browser-icon) Create Gist (GitHub)''
      | LocalMarkdownOption \<Rightarrow> ''$(markdown) Save as markdown''
      | OtherItem l \<Rightarrow> l)"

definition determineExportFormat :: "('f, 'r) ExportEnv \<Rightarrow> ExportFormat option io" where
  "determineExportFormat env =
     io_bind (io_emit (ShowQuickPick [GistOption, LocalMarkdownOption] ''Select export format''))
       (\<lambda>_. case showQuickPick env of
               None \<Rightarrow> io_throw (UserCancellationException ''No export format selected'' True)
             | Some exportFormat \<Rightarrow>
                 if label exportFormat = [] then
                   io_throw (UserCancellationException ''No export format selected'' True)
                 else if exportFormat = GistOption then io_return (Some Gist)
                 else if exportFormat = LocalMarkdownOption then io_return (Some Local)
                 else io_return None)"

subsection \<open>Selecting the repositories (part\_004, lines 87--96)\<close>

text \<open>
  The value of \<^verbatim>\<open>repositories\<close>: the filtered and sorted list, of which those are kept
  whose result count is truthy (present and not 0) and whose first state in
  \<open>repoStates\<close> has the download status \<open>Succeeded\<close>; \<^verbatim>\<open>undefined\<close> when the
  filter-and-sort function returns \<^verbatim>\<open>undefined\<close>.
\<close>

definition selectedForExport ::
  "VariantAnalysisScannedRepositoryState list \<Rightarrow> VariantAnalysisScannedRepository \<Rightarrow> bool" where
  "selectedForExport repoStates repo =
     ((case resultCount repo of None \<Rightarrow> False | Some n \<Rightarrow> n \<noteq> 0) \<and>
      map_option downloadStatus
        (find (\<lambda>r. repositoryId r = repo_id (repository repo)) repoStates)
        = Some DownloadSucceeded)"

definition repositoriesToExport ::
  "('f, 'r) ExportEnv \<Rightarrow> 'f VariantAnalysis \<Rightarrow> RepositoriesFilterSortStateWithIds option
     \<Rightarrow> VariantAnalysisScannedRepositoryState list
     \<Rightarrow> VariantAnalysisScannedRepository list option" where
  "repositoriesToExport env variantAnalysis filterSort repoStates =
     map_option (filter (selectedForExport repoStates))
       (filterAndSortRepositoriesWithResults env (scannedRepos variantAnalysis) filterSort)"

subsection \<open>Loading the results one by one (part\_004, lines 98--123)\<close>

text \<open>
  The asynchronous generator \<^verbatim>\<open>getAnalysesResults\<close> as the state machine it is: the
  generator object is created suspended at the start of the body, and each call of
  \<^verbatim>\<open>next\<close> runs the body up to the next \<^verbatim>\<open>yield\<close> (one pass of the loop), to its end,
  or to an exception, after which the generator is completed. The state of a generator
  suspended at the \<^verbatim>\<open>yield\<close> is what is left of the loop: the repositories not yet
  visited.
\<close>

datatype gen_state =
  GenStart | GenSuspended "VariantAnalysisScannedRepository list" | GenCompleted

definition getAnalysesResults_loop ::
  "('f, 'r) ExportEnv \<Rightarrow> 'f VariantAnalysis \<Rightarrow> VariantAnalysisScannedRepository list
     \<Rightarrow> effect list \<times> (exn + (VariantAnalysisScannedRepository \<times> 'r) IteratorResult) \<times> gen_state" where
  "getAnalysesResults_loop env variantAnalysis rs =
     (case rs of
        [] \<Rightarrow> ([], Inr IterDone, GenCompleted)
      | repo # rest \<Rightarrow>
          (case loadResults env (va_id variantAnalysis) (fullName (repository repo)) True of
             Inl e \<Rightarrow>
               ([LoadResults (va_id variantAnalysis) (fullName (repository repo)) True],
                Inl e, GenCompleted)
           | Inr result \<Rightarrow>
               ([LoadResults (va_id variantAnalysis) (fullName (repository repo)) True],
                Inr (IterValue (repo, result)), GenSuspended rest)))"

fun getAnalysesResults_next ::
  "('f, 'r) ExportEnv \<Rightarrow> 'f VariantAnalysis option
     \<Rightarrow> VariantAnalysisScannedRepository list option \<Rightarrow> gen_state
     \<Rightarrow> effect list \<times> (exn + (VariantAnalysisScannedRepository \<times> 'r) IteratorResult) \<times> gen_state" where
  "getAnalysesResults_next env variantAnalysis repositories GenStart =
     (case variantAnalysis of
        None \<Rightarrow> ([], Inr IterDone, GenCompleted)
      | Some va \<Rightarrow>
          (case repositories of
             None \<Rightarrow> ([], Inr IterDone, GenCompleted)
           | Some rs \<Rightarrow> getAnalysesResults_loop env va rs))"
| "getAnalysesResults_next env variantAnalysis repositories (GenSuspended rs) =
     (case variantAnalysis of
        None \<Rightarrow> ([], Inr IterDone, GenCompleted)
      | Some va \<Rightarrow> getAnalysesResults_loop env va rs)"
| "getAnalysesResults_next env variantAnalysis repositories GenCompleted =
     ([], Inr IterDone, GenCompleted)"

text \<open>
  The generator object: its method \<^verbatim>\<open>next\<close> and the state it is in. The call
  \<^verbatim>\<open>getAnalysesResults()\<close> creates the object suspended at the start of the body and
  runs nothing of it.
\<close>

type_synonym 'a AsyncGenerator =
  "(gen_state \<Rightarrow> effect list \<times> (exn + 'a IteratorResult) \<times> gen_state) \<times> gen_state"

definition getAnalysesResults ::
  "('f, 'r) ExportEnv \<Rightarrow> 'f VariantAnalysis option
     \<Rightarrow> VariantAnalysisScannedRepository list option
     \<Rightarrow> (VariantAnalysisScannedRepository \<times> 'r) AsyncGenerator" where
  "getAnalysesResults env variantAnalysis repositories =
     (getAnalysesResults_next env variantAnalysis repositories, GenStart)"

text \<open>
  A consumer at work on an iterator with the method \<open>nxt\<close>, from the state \<open>st\<close>:
  every \<^verbatim>\<open>next\<close> that the consumer awaits is one call of \<open>nxt\<close> in the state that the
  call before it left, and the consumer goes on with the outcome of that call. The
  result is the effects of the calls, what the consumer ends with, and the state in which
  the iterator is left.
\<close>

primrec consume ::
  "(gen_state \<Rightarrow> effect list \<times> (exn + 'a IteratorResult) \<times> gen_state) \<Rightarrow> ('a, 'b) consumer
     \<Rightarrow> gen_state \<Rightarrow> effect list \<times> (exn + 'b) \<times> gen_state" where
  "consume nxt (Resolve v) st = ([], Inr v, st)"
| "consume nxt (Reject e) st = ([], Inl e, st)"
| "consume nxt (AwaitNext k) st =
     (case nxt st of
        (tr, r, st') \<Rightarrow>
          (case consume nxt (k r) st' of (tr', out, st'') \<Rightarrow> (tr @ tr', out, st'')))"

text \<open>Awaiting a consumer that has been handed a generator object.\<close>

definition awaitConsumer :: "('a, 'b) consumer \<Rightarrow> 'a AsyncGenerator \<Rightarrow> 'b io" where
  "awaitConsumer c analysesResults =
     (case consume (fst analysesResults) c (snd analysesResults) of
        (tr, out, st) \<Rightarrow> (tr, out))"

subsection \<open>Writing the report (part\_004, lines 239--374)\<close>

text \<open>
  \<^verbatim>\<open>progress\<close> tells whether a progress callback was passed, \<open>token\<close> is the optional
  cancellation token. A notification's button is not awaited by the function; what
  pressing it starts is recorded right after the notification.
\<close>

definition gistFiles :: "MarkdownFile list \<Rightarrow> (string \<times> string) list" where
  "gistFiles markdownFiles =
     foldl (\<lambda>acc cur. AList.update (fileName cur @ ''.md'')
                          (joinWith [CHR 0x0A] (content cur)) acc)
       [] markdownFiles"

definition exportToGist ::
  "('f, 'r) ExportEnv \<Rightarrow> string \<Rightarrow> MarkdownFile list \<Rightarrow> bool
     \<Rightarrow> (checkpoint \<Rightarrow> bool) option \<Rightarrow> unit io" where
  "exportToGist env description markdownFiles progress token =
     io_bind (io_when progress
                (io_emit (Progress MAX_VARIANT_ANALYSIS_EXPORT_PROGRESS_STEPS 2 ''Creating Gist'')))
       (\<lambda>_. io_bind (checkCancelled token BeforeWrite)
       (\<lambda>_. io_bind (io_emit (CreateGist description (gistFiles markdownFiles)))
       (\<lambda>_. case createGist env description (gistFiles markdownFiles) of
               Inl e \<Rightarrow> io_throw e
             | Inr None \<Rightarrow> io_return ()
             | Inr (Some gistUrl) \<Rightarrow>
                 if gistUrl = [] then io_return ()
                 else
                   io_bind (io_emit (ShowInformationMessageWithAction
                                       ''Variant analysis results exported to gist.'' ''Open gist''))
                     (\<lambda>_. io_when (showInformationMessageWithAction env
                                      ''Variant analysis results exported to gist.'' ''Open gist'')
                             (io_emit (ExecuteCommand ''vscode.open'' gistUrl))))))"

fun writeMarkdownFiles ::
  "('f, 'r) ExportEnv \<Rightarrow> string \<Rightarrow> MarkdownFile list \<Rightarrow> unit io" where
  "writeMarkdownFiles env exportedResultsPath [] = io_return ()"
| "writeMarkdownFiles env exportedResultsPath (markdownFile # rest) =
     io_bind (fsCall env (WriteFile (join [exportedResultsPath, fileName markdownFile @ ''.md''])
                            (joinWith [CHR 0x0A] (content markdownFile)) ''utf8''))
       (\<lambda>_. writeMarkdownFiles env exportedResultsPath rest)"

definition exportedMessage :: "string \<Rightarrow> string" where
  "exportedMessage exportedResultsPath =
     ''Variant analysis results exported to '' @ [CHR 0x22] @ exportedResultsPath @
     [CHR 0x22] @ ''.''"

definition exportToLocalMarkdown ::
  "('f, 'r) ExportEnv \<Rightarrow> string \<Rightarrow> MarkdownFile list \<Rightarrow> bool
     \<Rightarrow> (checkpoint \<Rightarrow> bool) option \<Rightarrow> unit io" where
  "exportToLocalMarkdown env exportedResultsPath markdownFiles progress token =
     io_bind (checkCancelled token BeforeWrite)
       (\<lambda>_. io_bind (io_when progress
                       (io_emit (Progress MAX_VARIANT_ANALYSIS_EXPORT_PROGRESS_STEPS 2
                                   ''Creating local Markdown files'')))
       (\<lambda>_. io_bind (fsCall env (EnsureDir exportedResultsPath))
       (\<lambda>_. io_bind (writeMarkdownFiles env exportedResultsPath markdownFiles)
       (\<lambda>_. io_bind (io_emit (ShowInformationMessageWithAction
                                (exportedMessage exportedResultsPath) ''Open exported results''))
       (\<lambda>_. io_when (showInformationMessageWithAction env
                        (exportedMessage exportedResultsPath) ''Open exported results'')
               (let summaryFilePath = join [exportedResultsPath, ''_summary.md'']
                in ([OpenTextDocument summaryFilePath, ShowTextDocument summaryFilePath,
                     ExecuteCommand ''revealFileInOS'' summaryFilePath], Inr ())))))))"

definition exportResults ::
  "('f, 'r) ExportEnv \<Rightarrow> string \<Rightarrow> string \<Rightarrow> MarkdownFile list \<Rightarrow> ExportFormat \<Rightarrow> bool
     \<Rightarrow> (checkpoint \<Rightarrow> bool) option \<Rightarrow> unit io" where
  "exportResults env exportedResultsPath description markdownFiles exportFormat progress token =
     io_bind (checkCancelled token BeforeExport)
       (\<lambda>_. case exportFormat of
               Gist \<Rightarrow> exportToGist env description markdownFiles progress token
             | Local \<Rightarrow>
                 exportToLocalMarkdown env exportedResultsPath markdownFiles progress token)"

text \<open>
  \<open>analysesResults\<close> is the generator object, passed on to the Markdown generator as it
  was received:
  \<^verbatim>\<open>await generateVariantAnalysisMarkdown(variantAnalysis, analysesResults,
  expectedAnalysesResultsCount, exportFormat)\<close> is the Markdown generator for the three
  other arguments, awaited on that object.
\<close>

definition exportVariantAnalysisAnalysisResults ::
  "('f, 'r) ExportEnv \<Rightarrow> string \<Rightarrow> 'f VariantAnalysis
     \<Rightarrow> (VariantAnalysisScannedRepository \<times> 'r) AsyncGenerator \<Rightarrow> nat \<Rightarrow> ExportFormat
     \<Rightarrow> (checkpoint \<Rightarrow> bool) \<Rightarrow> unit io" where
  "exportVariantAnalysisAnalysisResults env exportedResultsPath variantAnalysis analysesResults
     expectedAnalysesResultsCount exportFormat token =
     io_bind (checkCancelled (Some token) BeforeGenerate)
       (\<lambda>_. io_bind (io_emit (Progress MAX_VARIANT_ANALYSIS_EXPORT_PROGRESS_STEPS 1
                                 ''Generating Markdown files''))
       (\<lambda>_. io_bind (awaitConsumer
                        (generateVariantAnalysisMarkdown env variantAnalysis
                           expectedAnalysesResultsCount exportFormat)
                        analysesResults)
       (\<lambda>(markdownFiles, summaries).
          exportResults env exportedResultsPath
            (buildVariantAnalysisGistDescription variantAnalysis summaries)
            markdownFiles exportFormat True (Some token))))"

definition exportVariantAnalysisResults ::
  "('f, 'r) ExportEnv \<Rightarrow> nat \<Rightarrow> RepositoriesFilterSortStateWithIds option \<Rightarrow> unit io" where
  "exportVariantAnalysisResults env variantAnalysisId filterSort =
     (case getVariantAnalysis env variantAnalysisId of
        None \<Rightarrow>
          io_bind (io_emit (Log (''Could not find variant analysis with id '' @
                                 numberToString variantAnalysisId)))
            (\<lambda>_. io_throw (Error
               ''There was an error when trying to retrieve variant analysis information''))
      | Some variantAnalysis \<Rightarrow>
          io_bind (checkCancelled (Some (isCancellationRequested env)) AfterLookup)
            (\<lambda>_. io_bind (io_emit (Log
                     (''Exporting variant analysis results for variant analysis with id '' @
                      numberToString (va_id variantAnalysis))))
            (\<lambda>_. io_bind (io_emit (Progress MAX_VARIANT_ANALYSIS_EXPORT_PROGRESS_STEPS 0
                                      ''Determining export format''))
            (\<lambda>_. io_bind (determineExportFormat env)
            (\<lambda>exportFormat.
               case exportFormat of
                 None \<Rightarrow> io_return ()
               | Some format \<Rightarrow>
                   io_bind (checkCancelled (Some (isCancellationRequested env)) AfterFormat)
                     (\<lambda>_. let repositories =
                                 repositoriesToExport env variantAnalysis filterSort
                                   (getRepoStates env variantAnalysisId)
                           in exportVariantAnalysisAnalysisResults env
                                (exportedResultsDirectory
                                   (getVariantAnalysisStorageLocation env (va_id variantAnalysis))
                                   (currentDate env))
                                variantAnalysis
                                (getAnalysesResults env (Some variantAnalysis) repositories)
                                (case repositories of None \<Rightarrow> 0 | Some rs \<Rightarrow> length rs)
                                format (isCancellationRequested env)))))))"

subsection \<open>The monitor loop\<close>

text \<open>
  Modelled from the spec: the monitor (\<^verbatim>\<open>variant-analysis-monitor\<close>), the processor
  (\<^verbatim>\<open>variant-analysis-processor\<close>) and the declarations of the API payload are not among
  the sources; only the monitor's test is. The payload of a status fetch is
  \<^verbatim>\<open>{status, failure_reason?, scanned_repositories: [{repository, analysis_status,
  result_count?, artifact_size?}]}\<close>, with the raw failure reason of any type \<open>'r\<close>.
\<close>

datatype ApiVariantAnalysisStatus = ApiInProgress | ApiSucceeded | ApiFailed | ApiCancelled

datatype ApiVariantAnalysisRepoStatus =
  ApiRepoPending | ApiRepoInProgress | ApiRepoSucceeded | ApiRepoFailed

record ApiRepository =
  api_id :: nat
  full_name :: string
  stargazers_count :: nat

record ApiVariantAnalysisScannedRepository =
  api_repository :: ApiRepository
  analysis_status :: ApiVariantAnalysisRepoStatus
  result_count :: "nat option"
  artifact_size :: "nat option"

record 'r ApiVariantAnalysis =
  api_status :: ApiVariantAnalysisStatus
  failure_reason :: "'r option"
  scanned_repositories :: "ApiVariantAnalysisScannedRepository list"

text \<open>
  Modelled from the spec: \<^verbatim>\<open>processScannedRepository\<close> ``normalizes the wire
  representation into the internal shape'': the identity, the analysis status and the
  result metadata are carried over field by field.
\<close>

fun processApiRepoStatus :: "ApiVariantAnalysisRepoStatus \<Rightarrow> VariantAnalysisRepoStatus" where
  "processApiRepoStatus ApiRepoPending = RepoPending"
| "processApiRepoStatus ApiRepoInProgress = RepoInProgress"
| "processApiRepoStatus ApiRepoSucceeded = RepoSucceeded"
| "processApiRepoStatus ApiRepoFailed = RepoFailed"

definition processScannedRepository ::
  "ApiVariantAnalysisScannedRepository \<Rightarrow> VariantAnalysisScannedRepository" where
  "processScannedRepository scannedRepo =
     \<lparr>repository =
        \<lparr>repo_id = api_id (api_repository scannedRepo),
         fullName = full_name (api_repository scannedRepo),
         stargazersCount = stargazers_count (api_repository scannedRepo)\<rparr>,
      analysisStatus = processApiRepoStatus (analysis_status scannedRepo),
      resultCount = result_count scannedRepo,
      artifactSizeInBytes = artifact_size scannedRepo\<rparr>"

text \<open>
  Modelled from the spec: what the monitor is given. \<open>shouldCancelMonitor n\<close> is the
  answer of the cancellation predicate before poll \<open>n\<close> and \<open>statusFetch n\<close> the outcome
  of the fetch of poll \<open>n\<close> (polls are counted from 0): a snapshot, or the exception of a
  failed fetch. The two other pure functions of the processor are parameters: the spec
  fixes their types, not their tables. \<open>maxAttemptCount\<close> and \<open>sleepTime\<close> are the two
  configuration knobs.
\<close>

record ('r, 'f) MonitorEnv =
  shouldCancelMonitor :: "nat \<Rightarrow> bool"
  statusFetch :: "nat \<Rightarrow> exn + 'r ApiVariantAnalysis"
  processFailureReason :: "'r \<Rightarrow> 'f"
  processUpdatedVariantAnalysis :: "'f VariantAnalysis \<Rightarrow> 'r ApiVariantAnalysis \<Rightarrow> 'f VariantAnalysis"
  maxAttemptCount :: nat
  sleepTime :: nat

datatype 'f monitor_effect =
    StatusFetch nat
  | DownloadTrigger VariantAnalysisScannedRepository "'f VariantAnalysis"
  | ChangeEvent "'f VariantAnalysis"
  | Sleep nat

text \<open>Why the monitor returned.\<close>

datatype monitor_stop = MonitorCancelled | JobFailed | JobFinished | AttemptCeilingReached

definition isTerminalStatus :: "ApiVariantAnalysisStatus \<Rightarrow> bool" where
  "isTerminalStatus s = (s \<noteq> ApiInProgress)"

text \<open>
  Modelled from the spec (4.2, delta detection): a repository of the snapshot is newly in
  a terminal state when it is in that state now and its id was not already reported in
  it; the delta keeps the order of the snapshot's repository collection.
\<close>

definition newlyInState ::
  "ApiVariantAnalysisRepoStatus \<Rightarrow> nat list \<Rightarrow> 'r ApiVariantAnalysis
     \<Rightarrow> ApiVariantAnalysisScannedRepository list" where
  "newlyInState st alreadyReported snapshot =
     filter (\<lambda>scannedRepo. analysis_status scannedRepo = st \<and>
                          api_id (api_repository scannedRepo) \<notin> set alreadyReported)
       (scanned_repositories snapshot)"

text \<open>
  Modelled from the spec (4.1, steps 1 to 8). \<open>attemptCount\<close> counts the polls made so
  far, \<open>variantAnalysis\<close> is the job as last processed, \<open>reportedSucceeded\<close> and
  \<open>reportedFailed\<close> hold the ids already reported in each terminal state. A pass of the
  loop: stop silently once the attempt count exceeds the ceiling; return without any
  event when the cancellation predicate holds; fetch (a failed fetch ends the monitoring
  with its exception); on a failed job emit the one change event and stop; otherwise
  trigger the download of every newly succeeded repository, one after the other, with the
  processed repository and the processed job, emit the change event, stop on a terminal
  status, and else sleep and repeat. With a ceiling of 3 this makes the four polls that
  the monitor test counts.
\<close>

function monitor_loop ::
  "('r, 'f) MonitorEnv \<Rightarrow> nat \<Rightarrow> 'f VariantAnalysis \<Rightarrow> nat list \<Rightarrow> nat list
     \<Rightarrow> 'f monitor_effect list \<times> (exn + monitor_stop)" where
  "monitor_loop env attemptCount variantAnalysis reportedSucceeded reportedFailed =
     (if maxAttemptCount env < attemptCount then ([], Inr AttemptCeilingReached)
      else if shouldCancelMonitor env attemptCount then ([], Inr MonitorCancelled)
      else
        (case statusFetch env attemptCount of
           Inl e \<Rightarrow> ([StatusFetch attemptCount], Inl e)
         | Inr snapshot \<Rightarrow>
             if api_status snapshot = ApiFailed then
               ([StatusFetch attemptCount,
                 ChangeEvent (variantAnalysis
                   \<lparr>status := Failed,
                    failureReason := map_option (processFailureReason env)
                                       (failure_reason snapshot)\<rparr>)],
                Inr JobFailed)
             else
               (let succeededDelta = newlyInState ApiRepoSucceeded reportedSucceeded snapshot;
                    failedDelta = newlyInState ApiRepoFailed reportedFailed snapshot;
                    processed = processUpdatedVariantAnalysis env variantAnalysis snapshot;
                    effects =
                      [StatusFetch attemptCount] @
                      map (\<lambda>scannedRepo.
                             DownloadTrigger (processScannedRepository scannedRepo) processed)
                        succeededDelta @
                      [ChangeEvent processed]
                in if isTerminalStatus (api_status snapshot) then (effects, Inr JobFinished)
                   else
                     (case monitor_loop env (Suc attemptCount) processed
                             (reportedSucceeded @
                              map (\<lambda>r. api_id (api_repository r)) succeededDelta)
                             (reportedFailed @
                              map (\<lambda>r. api_id (api_repository r)) failedDelta) of
                        (later, outcome) \<Rightarrow>
                          (effects @ [Sleep (sleepTime env)] @ later, outcome)))))"
  by pat_completeness auto
termination
  by (relation "measure (\<lambda>(env, attemptCount, variantAnalysis, reportedSucceeded, reportedFailed).
                           Suc (maxAttemptCount env) - attemptCount)") auto

declare monitor_loop.simps [simp del]

text \<open>\<^verbatim>\<open>monitor(job)\<close>: the loop from its start, nothing reported yet.\<close>

definition monitor ::
  "('r, 'f) MonitorEnv \<Rightarrow> 'f VariantAnalysis \<Rightarrow> 'f monitor_effect list \<times> (exn + monitor_stop)" where
  "monitor env variantAnalysis = monitor_loop env 0 variantAnalysis [] []"

subsection \<open>Vocabulary of the statements\<close>

text \<open>The effect that reports an exception through the error path.\<close>

fun isErrorReport :: "effect \<Rightarrow> bool" where
  "isErrorReport (ShowAndLogExceptionWithTelemetry message fullMessage command) = True"
| "isErrorReport _ = False"

text \<open>
  The call of \<^verbatim>\<open>loadResults\<close> for a repository of a job: with the job id, the
  repository's full name and \<^verbatim>\<open>skipCacheStore\<close> set.
\<close>

definition loadOf :: "'f VariantAnalysis \<Rightarrow> VariantAnalysisScannedRepository \<Rightarrow> effect" where
  "loadOf variantAnalysis repo =
     LoadResults (va_id variantAnalysis) (fullName (repository repo)) True"

text \<open>The effects that are calls of \<^verbatim>\<open>loadResults\<close>.\<close>

fun isLoad :: "effect \<Rightarrow> bool" where
  "isLoad (LoadResults variantAnalysisId repoFullName skipCacheStore) = True"
| "isLoad _ = False"

text \<open>How often a consumer at work on an iterator awaits \<^verbatim>\<open>next\<close>.\<close>

primrec requests ::
  "(gen_state \<Rightarrow> effect list \<times> (exn + 'a IteratorResult) \<times> gen_state) \<Rightarrow> ('a, 'b) consumer
     \<Rightarrow> gen_state \<Rightarrow> nat" where
  "requests nxt (Resolve v) st = 0"
| "requests nxt (Reject e) st = 0"
| "requests nxt (AwaitNext k) st =
     (case nxt st of (tr, r, st') \<Rightarrow> Suc (requests nxt (k r) st'))"

text \<open>
  The state of the generator of \<open>repositories\<close> after \<open>n\<close> calls of \<^verbatim>\<open>next\<close> that
  all resolved: not started, suspended with the repositories not yet visited, or
  completed.
\<close>

definition stateAfter :: "VariantAnalysisScannedRepository list \<Rightarrow> nat \<Rightarrow> gen_state" where
  "stateAfter repositories n =
     (if n = 0 then GenStart
      else if n \<le> length repositories then GenSuspended (drop n repositories)
      else GenCompleted)"

text \<open>
  A path segment that normalisation keeps as it is: not empty, not \<^verbatim>\<open>.\<close>, not \<^verbatim>\<open>..\<close>,
  and without a slash.
\<close>

definition ordinarySegment :: "string \<Rightarrow> bool" where
  "ordinarySegment seg =
     (seg \<noteq> [] \<and> seg \<noteq> ''.'' \<and> seg \<noteq> ''..'' \<and> CHR ''/'' \<notin> set seg)"

text \<open>
  A list of segments that normalisation leaves as it is: \<^verbatim>\<open>..\<close> segments first (only
  where a path may climb above its start), ordinary segments after them.
\<close>

definition normalSegments :: "bool \<Rightarrow> string list \<Rightarrow> bool" where
  "normalSegments allowAboveRoot segs =
     (\<exists>k rest. segs = replicate k ''..'' @ rest \<and> (\<forall>s \<in> set rest. ordinarySegment s) \<and>
                (0 < k \<longrightarrow> allowAboveRoot))"

text \<open>
  A reading of the clock in the years that \<^verbatim>\<open>toISOString\<close> prints with four digits,
  and its date and its time of day in compact form (\<^verbatim>\<open>YYYYMMDD\<close>, \<^verbatim>\<open>HHmmss\<close>).
\<close>

definition validDate :: "Date \<Rightarrow> bool" where
  "validDate d =
     (utcFullYear d \<le> 9999 \<and> 1 \<le> utcMonth d \<and> utcMonth d \<le> 12 \<and>
      1 \<le> utcDate d \<and> utcDate d \<le> 31 \<and> utcHours d < 24 \<and> utcMinutes d < 60 \<and>
      utcSeconds d < 60 \<and> utcMilliseconds d < 1000)"

definition compactDate :: "Date \<Rightarrow> string" where
  "compactDate d =
     padStart 4 (numberToString (utcFullYear d)) @
     padStart 2 (numberToString (utcMonth d)) @
     padStart 2 (numberToString (utcDate d))"

definition compactTime :: "Date \<Rightarrow> string" where
  "compactTime d =
     padStart 2 (numberToString (utcHours d)) @
     padStart 2 (numberToString (utcMinutes d)) @
     padStart 2 (numberToString (utcSeconds d))"

text \<open>The write that \<^verbatim>\<open>exportToLocalMarkdown\<close> performs for one Markdown file.\<close>

definition writeOf :: "string \<Rightarrow> MarkdownFile \<Rightarrow> effect" where
  "writeOf dir markdownFile =
     WriteFile (join [dir, fileName markdownFile @ ''.md''])
       (joinWith [CHR 0x0A] (content markdownFile)) ''utf8''"

text \<open>What a run of the monitor did, read off its effects.\<close>

fun downloadTriggers ::
  "'f monitor_effect list \<Rightarrow> (VariantAnalysisScannedRepository \<times> 'f VariantAnalysis) list" where
  "downloadTriggers [] = []"
| "downloadTriggers (DownloadTrigger repo job # effects) = (repo, job) # downloadTriggers effects"
| "downloadTriggers (_ # effects) = downloadTriggers effects"

fun changeEvents :: "'f monitor_effect list \<Rightarrow> 'f VariantAnalysis list" where
  "changeEvents [] = []"
| "changeEvents (ChangeEvent job # effects) = job # changeEvents effects"
| "changeEvents (_ # effects) = changeEvents effects"

fun polls :: "'f monitor_effect list \<Rightarrow> nat list" where
  "polls [] = []"
| "polls (StatusFetch n # effects) = n # polls effects"
| "polls (_ # effects) = polls effects"

definition triggeredIds :: "'f monitor_effect list \<Rightarrow> nat list" where
  "triggeredIds effects = map (\<lambda>(repo, job). repo_id (repository repo)) (downloadTriggers effects)"

text \<open>The ids of the repositories that a snapshot reports as succeeded.\<close>

definition succeededIds :: "'r ApiVariantAnalysis \<Rightarrow> nat list" where
  "succeededIds snapshot =
     map (\<lambda>r. api_id (api_repository r))
       (filter (\<lambda>r. analysis_status r = ApiRepoSucceeded) (scanned_repositories snapshot))"

text \<open>
  The repositories that reach \<open>Succeeded\<close> in the job a run monitors. The job takes
  the statuses of its repositories from the snapshots that are merged into it, and those
  are the fetched snapshots that are diffed: every fetched snapshot whose top-level
  status is not a failure (a snapshot that reports the failure of the job ends the run at
  step 3, with the job marked as failed and nothing merged). \<open>diffedSucceeded\<close> is the
  set of the repositories that such a snapshot of the polls \<open>ns\<close> reports as
  succeeded; \<open>observedSucceeded\<close> is the same set read off all the fetched snapshots,
  the failed ones included.
\<close>

definition observedSucceeded :: "('r, 'f) MonitorEnv \<Rightarrow> nat list \<Rightarrow> nat set" where
  "observedSucceeded env ns =
     (\<Union>n \<in> set ns. case statusFetch env n of
                        Inl e \<Rightarrow> {}
                      | Inr snapshot \<Rightarrow> set (succeededIds snapshot))"


text \<open>
  The data model's key: within a snapshot a repository id occurs once.
\<close>

definition uniqueRepositoryIds :: "('r, 'f) MonitorEnv \<Rightarrow> bool" where
  "uniqueRepositoryIds env =
     (\<forall>n. case statusFetch env n of
            Inl e \<Rightarrow> True
          | Inr snapshot \<Rightarrow>
              distinct (map (\<lambda>r. api_id (api_repository r)) (scanned_repositories snapshot)))"

subsection \<open>Sample inputs\<close>

text \<open>
  A job with four scanned repositories, and surroundings in which every collaborator
  succeeds; \<open>pick\<close> is the user's answer to the format picker.
\<close>

definition sampleRepository ::
  "nat \<Rightarrow> string \<Rightarrow> nat option \<Rightarrow> VariantAnalysisScannedRepository" where
  "sampleRepository i name count =
     \<lparr>repository = \<lparr>repo_id = i, fullName = name, stargazersCount = 0\<rparr>,
      analysisStatus = RepoSucceeded, resultCount = count, artifactSizeInBytes = None\<rparr>"

definition sampleVariantAnalysis :: "string VariantAnalysis" where
  "sampleVariantAnalysis =
     \<lparr>va_id = 7, query = \<lparr>query_name = ''Empty Block'', language = Go\<rparr>,
      status = Succeeded, failureReason = None,
      scannedRepos =
        [sampleRepository 1 ''octo/alpha'' (Some 3), sampleRepository 2 ''octo/beta'' (Some 5),
         sampleRepository 3 ''octo/gamma'' (Some 0), sampleRepository 4 ''octo/delta'' (Some 2)]\<rparr>"

definition sampleRepoStates :: "VariantAnalysisScannedRepositoryState list" where
  "sampleRepoStates =
     [\<lparr>repositoryId = 1, downloadStatus = DownloadSucceeded\<rparr>,
      \<lparr>repositoryId = 2, downloadStatus = DownloadFailed\<rparr>,
      \<lparr>repositoryId = 3, downloadStatus = DownloadSucceeded\<rparr>,
      \<lparr>repositoryId = 4, downloadStatus = DownloadSucceeded\<rparr>]"

definition sampleDate :: Date where
  "sampleDate =
     \<lparr>utcFullYear = 2022, utcMonth = 11, utcDate = 15, utcHours = 12, utcMinutes = 34,
      utcSeconds = 56, utcMilliseconds = 789\<rparr>"

text \<open>
  A Markdown generator that renders each pair as it receives it, into one file and one
  summary, and asks for the next until the iterable is done; it is handed the number of
  pairs to expect and rejects when there are more.
\<close>

definition sampleFile ::
  "VariantAnalysisScannedRepository \<times> string list \<Rightarrow> MarkdownFile" where
  "sampleFile pair =
     \<lparr>fileName = ''result-'' @ numberToString (repo_id (repository (fst pair))),
      content = snd pair\<rparr>"

definition sampleSummary ::
  "VariantAnalysisScannedRepository \<times> string list \<Rightarrow> RepositorySummary" where
  "sampleSummary pair =
     \<lparr>summary_fileName = ''result-'' @ numberToString (repo_id (repository (fst pair))),
      summary_resultCount = resultCount (fst pair)\<rparr>"

primrec sampleMarkdown ::
  "nat \<Rightarrow> MarkdownFile list \<Rightarrow> RepositorySummary list
     \<Rightarrow> (VariantAnalysisScannedRepository \<times> string list,
         MarkdownFile list \<times> RepositorySummary list) consumer" where
  "sampleMarkdown 0 files summaries =
     AwaitNext (\<lambda>r. case r of
                       Inl e \<Rightarrow> Reject e
                     | Inr IterDone \<Rightarrow>
                         Resolve (\<lparr>fileName = ''_summary'', content = [''# Results'']\<rparr> # files,
                                  summaries)
                     | Inr (IterValue pair) \<Rightarrow> Reject (Error ''More results than expected''))"
| "sampleMarkdown (Suc n) files summaries =
     AwaitNext (\<lambda>r. case r of
                       Inl e \<Rightarrow> Reject e
                     | Inr IterDone \<Rightarrow>
                         Resolve (\<lparr>fileName = ''_summary'', content = [''# Results'']\<rparr> # files,
                                  summaries)
                     | Inr (IterValue pair) \<Rightarrow>
                         sampleMarkdown n (files @ [sampleFile pair])
                           (summaries @ [sampleSummary pair]))"

text \<open>A Markdown generator that is content with the first pair.\<close>

definition firstOnly ::
  "(VariantAnalysisScannedRepository \<times> string list,
    MarkdownFile list \<times> RepositorySummary list) consumer" where
  "firstOnly =
     AwaitNext (\<lambda>r. case r of
                       Inl e \<Rightarrow> Reject e
                     | Inr IterDone \<Rightarrow> Resolve ([], [])
                     | Inr (IterValue pair) \<Rightarrow> Resolve ([sampleFile pair], [sampleSummary pair]))"

definition sampleEnv :: "QuickPickItem option \<Rightarrow> (string, string list) ExportEnv" where
  "sampleEnv pick =
     \<lparr>getVariantAnalysis = (\<lambda>i. if i = 7 then Some sampleVariantAnalysis else None),
      getRepoStates = (\<lambda>i. sampleRepoStates),
      getVariantAnalysisStorageLocation = (\<lambda>i. ''/storage/variant-analyses/7''),
      loadResults = (\<lambda>i name skipCacheStore. Inr [''alert in '' @ name]),
      filterAndSortRepositoriesWithResults = (\<lambda>repos criteria. Some repos),
      generateVariantAnalysisMarkdown = (\<lambda>va expected format. sampleMarkdown expected [] []),
      showQuickPick = pick,
      isCancellationRequested = (\<lambda>cp. False),
      currentDate = sampleDate,
      fsError = (\<lambda>eff. None),
      createGist = (\<lambda>description files. Inr (Some ''https://gist.github.com/1'')),
      showInformationMessageWithAction = (\<lambda>message action. False)\<rparr>"

text \<open>The same surroundings with the Markdown generator that takes the first pair only.\<close>

definition hastyEnv :: "(string, string list) ExportEnv" where
  "hastyEnv =
     (sampleEnv (Some LocalMarkdownOption))
       \<lparr>generateVariantAnalysisMarkdown := (\<lambda>va expected format. firstOnly)\<rparr>"

definition sampleCommandEnv :: CommandEnv where
  "sampleCommandEnv =
     \<lparr>getErrorMessage = (\<lambda>e. case e of UserCancellationException m silent \<Rightarrow> m | Error m \<Rightarrow> m),
      getErrorStack = (\<lambda>e. []),
      stringOf = (\<lambda>e. ''Error''),
      telemetryListener = True,
      startTime = 1000,
      endTime = 1250\<rparr>"

subsection \<open>Sample runs of the monitor\<close>

text \<open>
  The inputs of the monitor test: scanned repositories numbered from 1 with given analysis
  statuses, responses with a given top-level status, and a merge of a snapshot onto a job
  that takes the status and the repositories from the snapshot. The test lowers the
  attempt ceiling to 3 and the sleep to 1.
\<close>

definition createMockScannedRepos ::
  "ApiVariantAnalysisRepoStatus list \<Rightarrow> ApiVariantAnalysisScannedRepository list" where
  "createMockScannedRepos statuses =
     map (\<lambda>(i, st).
            \<lparr>api_repository = \<lparr>api_id = i, full_name = ''octo/repo'', stargazers_count = 0\<rparr>,
             analysis_status = st, result_count = None, artifact_size = None\<rparr>)
       (enumerate 1 statuses)"

definition createMockApiResponse ::
  "ApiVariantAnalysisStatus \<Rightarrow> ApiVariantAnalysisScannedRepository list
     \<Rightarrow> string ApiVariantAnalysis" where
  "createMockApiResponse st repos =
     \<lparr>api_status = st, failure_reason = None, scanned_repositories = repos\<rparr>"

definition sampleProcessUpdated ::
  "string VariantAnalysis \<Rightarrow> string ApiVariantAnalysis \<Rightarrow> string VariantAnalysis" where
  "sampleProcessUpdated job snapshot =
     job\<lparr>status := (case api_status snapshot of
                       ApiInProgress \<Rightarrow> InProgress | ApiSucceeded \<Rightarrow> Succeeded
                     | ApiFailed \<Rightarrow> Failed | ApiCancelled \<Rightarrow> Canceled),
         scannedRepos := map processScannedRepository (scanned_repositories snapshot)\<rparr>"

definition mockMonitorEnv ::
  "(nat \<Rightarrow> bool) \<Rightarrow> (nat \<Rightarrow> exn + string ApiVariantAnalysis) \<Rightarrow> (string, string) MonitorEnv" where
  "mockMonitorEnv cancel responses =
     \<lparr>shouldCancelMonitor = cancel, statusFetch = responses,
      processFailureReason = (\<lambda>raw. ''classified:'' @ raw),
      processUpdatedVariantAnalysis = sampleProcessUpdated,
      maxAttemptCount = 3, sleepTime = 1\<rparr>"

text \<open>``When the responses change'': four responses, then the fetch is not mocked.\<close>

definition changingResponses :: "nat \<Rightarrow> exn + string ApiVariantAnalysis" where
  "changingResponses n =
     (if n = 0 then Inr (createMockApiResponse ApiInProgress (createMockScannedRepos
        [ApiRepoPending, ApiRepoInProgress, ApiRepoInProgress, ApiRepoInProgress,
         ApiRepoPending, ApiRepoPending]))
      else if n = 1 then Inr (createMockApiResponse ApiInProgress (createMockScannedRepos
        [ApiRepoSucceeded, ApiRepoSucceeded, ApiRepoInProgress, ApiRepoInProgress,
         ApiRepoPending, ApiRepoPending]))
      else if n = 2 then Inr (createMockApiResponse ApiInProgress (createMockScannedRepos
        [ApiRepoSucceeded, ApiRepoSucceeded, ApiRepoSucceeded, ApiRepoInProgress,
         ApiRepoPending, ApiRepoSucceeded]))
      else if n = 3 then Inr (createMockApiResponse ApiInProgress (createMockScannedRepos
        [ApiRepoSucceeded, ApiRepoSucceeded, ApiRepoSucceeded, ApiRepoSucceeded,
         ApiRepoFailed, ApiRepoSucceeded]))
      else Inl (Error ''Not mocked''))"

text \<open>``When there are successfully scanned repos'': the same response to every fetch.\<close>

definition succeededResponse :: "string ApiVariantAnalysis" where
  "succeededResponse =
     createMockApiResponse ApiSucceeded (createMockScannedRepos
       [ApiRepoPending, ApiRepoPending, ApiRepoInProgress, ApiRepoInProgress,
        ApiRepoSucceeded, ApiRepoSucceeded, ApiRepoSucceeded])"

text \<open>A failed job, one of whose repositories had succeeded before the failure.\<close>

definition failedResponse :: "string ApiVariantAnalysis" where
  "failedResponse =
     \<lparr>api_status = ApiFailed, failure_reason = Some ''internal_error'',
      scanned_repositories = createMockScannedRepos [ApiRepoSucceeded, ApiRepoPending]\<rparr>"

section \<open>Properties\<close>

subsection \<open>The export description\<close>

lemma foldl_add_sum_list:
  "foldl (\<lambda>acc x. acc + f x) a xs = (a::nat) + sum_list (map f xs)"
  by (induction xs arbitrary: a) simp_all

text \<open>
  C5. The export description is the query name, the query language in parentheses, the
  total result count (the sum of the summaries' result counts) with ``result'' in the
  singular exactly when the total is 1, and, when there is at least one summary, the
  number of summaries with ``repository'' in the singular exactly when that number is 1,
  in parentheses. With no summary the parenthetical is left out and the result phrase is
  ``0 results'' (followed by the blank that separates the two labels).
\<close>

theorem buildVariantAnalysisGistDescription_format:
  "buildVariantAnalysisGistDescription variantAnalysis summaries =
     (let N = sum_list (map (\<lambda>s. case summary_resultCount s of None \<Rightarrow> 0 | Some n \<Rightarrow> n)
                summaries);
          M = length summaries;
          heading = query_name (query variantAnalysis) @ '' ('' @
                    queryLanguageValue (language (query variantAnalysis)) @ '') ''
      in if summaries = [] then heading @ ''0 results ''
         else heading @ numberToString N @ (if N = 1 then '' result'' else '' results'') @
              '' ('' @ numberToString M @
              (if M = 1 then '' repository'' else '' repositories'') @ '')'')"
proof (cases "summaries = []")
  case True
  then show ?thesis
    by (simp add: buildVariantAnalysisGistDescription_def pluralize_def
        numberToString.simps [of 0] digitChar_def digits10_def)
next
  case False
  then show ?thesis
    unfolding buildVariantAnalysisGistDescription_def pluralize_def Let_def
      foldl_add_sum_list
    by simp
qed

theorem buildVariantAnalysisGistDescription_format_witness:
  "buildVariantAnalysisGistDescription sampleVariantAnalysis
     [\<lparr>summary_fileName = ''result-1'', summary_resultCount = Some 3\<rparr>,
      \<lparr>summary_fileName = ''result-4'', summary_resultCount = Some 2\<rparr>]
     = ''Empty Block (go) 5 results (2 repositories)''
   \<and> buildVariantAnalysisGistDescription sampleVariantAnalysis
     [\<lparr>summary_fileName = ''result-1'', summary_resultCount = Some 1\<rparr>]
     = ''Empty Block (go) 1 result (1 repository)''
   \<and> buildVariantAnalysisGistDescription sampleVariantAnalysis [] =
       ''Empty Block (go) 0 results ''"
proof -
  have digits: "numberToString (Suc 0) = ''1''" "numberToString (Suc (Suc 0)) = ''2''"
    "numberToString 5 = ''5''"
    by (simp_all add: numberToString.simps [of "Suc 0"] numberToString.simps [of "Suc (Suc 0)"]
        numberToString.simps [of 5] digitChar_def digits10_def)
  show ?thesis
    using buildVariantAnalysisGistDescription_format [of sampleVariantAnalysis
            "[\<lparr>summary_fileName = ''result-1'', summary_resultCount = Some 3\<rparr>,
              \<lparr>summary_fileName = ''result-4'', summary_resultCount = Some 2\<rparr>]"]
          buildVariantAnalysisGistDescription_format [of sampleVariantAnalysis
            "[\<lparr>summary_fileName = ''result-1'', summary_resultCount = Some 1\<rparr>]"]
          buildVariantAnalysisGistDescription_format [of sampleVariantAnalysis "[]"]
    by (simp add: digits sampleVariantAnalysis_def)
qed

subsection \<open>Digits, time stamps and paths\<close>

lemma digitChar_isDigit: "isDigit (digitChar n)"
  unfolding isDigit_def digitChar_def
  by (rule nth_mem) (simp add: digits10_def)

lemma isDigit_zero: "isDigit (CHR ''0'')"
  by (simp add: isDigit_def digits10_def)

lemma numberToString_digits: "list_all isDigit (numberToString n)"
  by (induction n rule: numberToString.induct)
    (subst numberToString.simps, simp add: digitChar_isDigit)

lemma numberToString_length_2:
  assumes "n < 100"
  shows "length (numberToString n) \<le> 2"
proof (cases "n < 10")
  case True
  then show ?thesis by (simp add: numberToString.simps [of n])
next
  case False
  from assms have "n div 10 < 10" by simp
  then have "numberToString (n div 10) = [digitChar (n div 10)]"
    by (simp add: numberToString.simps [of "n div 10"])
  with False show ?thesis by (subst numberToString.simps) simp
qed

lemma numberToString_length_3:
  assumes "n < 1000"
  shows "length (numberToString n) \<le> 3"
proof (cases "n < 10")
  case True
  then show ?thesis by (simp add: numberToString.simps [of n])
next
  case False
  from assms have "n div 10 < 100" by simp
  then have "length (numberToString (n div 10)) \<le> 2" by (rule numberToString_length_2)
  with False show ?thesis by (subst numberToString.simps) simp
qed

lemma numberToString_length_4:
  assumes "n < 10000"
  shows "length (numberToString n) \<le> 4"
proof (cases "n < 10")
  case True
  then show ?thesis by (simp add: numberToString.simps [of n])
next
  case False
  from assms have "n div 10 < 1000" by simp
  then have "length (numberToString (n div 10)) \<le> 3" by (rule numberToString_length_3)
  with False show ?thesis by (subst numberToString.simps) simp
qed

lemma numberToString_not_Nil: "numberToString n \<noteq> []"
  by (subst numberToString.simps) simp

lemma padStart_digits: "list_all isDigit s \<Longrightarrow> list_all isDigit (padStart w s)"
  by (auto simp: padStart_def list_all_iff isDigit_zero)

lemma padStart_length: "length s \<le> w \<Longrightarrow> length (padStart w s) = w"
  by (simp add: padStart_def)

lemma isDigit_not_punct:
  "isDigit c \<Longrightarrow> c \<noteq> CHR ''-'' \<and> c \<noteq> CHR '':'' \<and> c \<noteq> CHR ''.'' \<and> c \<noteq> CHR ''/''"
  by (auto simp: isDigit_def digits10_def)

lemma removeDashesAndColons_digits:
  "list_all isDigit s \<Longrightarrow> removeDashesAndColons s = s"
  unfolding removeDashesAndColons_def
  by (rule filter_True) (auto simp: list_all_iff dest: isDigit_not_punct)

lemma removeDashesAndColons_append:
  "removeDashesAndColons (a @ b) = removeDashesAndColons a @ removeDashesAndColons b"
  by (simp add: removeDashesAndColons_def)

lemma replaceFractionZ_at_fraction:
  assumes "CHR ''.'' \<notin> set xs" and "ds \<noteq> []" and "list_all isDigit ds"
  shows "replaceFractionZ (xs @ ''.'' @ ds @ ''Z'') = xs @ ''Z''"
  using assms(1)
proof (induction xs)
  case Nil
  from assms(2,3) show ?case by (simp add: matchesDigitsZ_def butlast_append)
next
  case (Cons c cs)
  then show ?case by auto
qed

lemma splitPath_not_Nil: "splitPath s \<noteq> []"
  by (induction s) (auto split: list.splits)

lemma splitPath_no_separator: "CHR ''/'' \<notin> set s \<Longrightarrow> splitPath s = [s]"
  by (induction s) auto

lemma splitPath_append_separator:
  "splitPath (a @ CHR ''/'' # b) = splitPath a @ splitPath b"
proof (induction a)
  case Nil
  show ?case by simp
next
  case (Cons c cs)
  obtain seg segs where "splitPath cs = seg # segs"
    using splitPath_not_Nil [of cs] by (cases "splitPath cs") auto
  with Cons show ?case by simp
qed

lemma splitPath_joinWith:
  "segs \<noteq> [] \<Longrightarrow> \<forall>seg \<in> set segs. CHR ''/'' \<notin> set seg
   \<Longrightarrow> splitPath (joinWith ''/'' segs) = segs"
proof (induction "''/''" segs rule: joinWith.induct)
  case 1
  then show ?case by simp
next
  case (2 x)
  then show ?case by (simp add: splitPath_no_separator)
next
  case (3 x y ys)
  have "splitPath (x @ CHR ''/'' # joinWith ''/'' (y # ys))
        = splitPath x @ splitPath (joinWith ''/'' (y # ys))"
    by (rule splitPath_append_separator)
  with 3 show ?case by (simp add: splitPath_no_separator)
qed

lemma normalizeSegment_ordinary:
  "ordinarySegment seg \<Longrightarrow> normalizeSegment a res seg = res @ [seg]"
  by (simp add: normalizeSegment_def ordinarySegment_def)

lemma foldl_normalizeSegment_ordinary:
  "\<forall>seg \<in> set segs. ordinarySegment seg
   \<Longrightarrow> foldl (normalizeSegment a) res segs = res @ segs"
  by (induction segs arbitrary: res) (simp_all add: normalizeSegment_ordinary)

lemma joinWith_append:
  "xs \<noteq> [] \<Longrightarrow> ys \<noteq> [] \<Longrightarrow> joinWith sep (xs @ ys) = joinWith sep xs @ sep @ joinWith sep ys"
proof (induction sep xs rule: joinWith.induct)
  case (1 sep)
  then show ?case by simp
next
  case (2 sep x)
  then show ?case by (cases ys) simp_all
next
  case (3 sep x y ys')
  then show ?case by simp
qed

lemma joinWith_not_Nil:
  "segs \<noteq> [] \<Longrightarrow> \<forall>seg \<in> set segs. seg \<noteq> [] \<Longrightarrow> joinWith sep segs \<noteq> []"
  by (induction sep segs rule: joinWith.induct) auto

lemma joinWith_last:
  "segs \<noteq> [] \<Longrightarrow> \<forall>seg \<in> set segs. seg \<noteq> [] \<Longrightarrow> last (joinWith sep segs) = last (last segs)"
proof (induction sep segs rule: joinWith.induct)
  case (1 sep)
  then show ?case by simp
next
  case (2 sep x)
  then show ?case by simp
next
  case (3 sep x y ys)
  then have "joinWith sep (y # ys) \<noteq> []" by (intro joinWith_not_Nil) auto
  with 3 show ?case by simp
qed

lemma join_ordinary_segments:
  assumes ne: "segs \<noteq> []" and ord: "\<forall>seg \<in> set segs. ordinarySegment seg"
  shows "\<exists>prefix. join (dir # segs) = prefix @ joinWith ''/'' segs
                  \<and> (prefix = [] \<or> last prefix = CHR ''/'')"
proof -
  define J where "J = joinWith ''/'' segs"
  from ord have nonempty: "\<forall>seg \<in> set segs. seg \<noteq> []"
    and nosep: "\<forall>seg \<in> set segs. CHR ''/'' \<notin> set seg"
    by (auto simp: ordinarySegment_def)
  have J_ne: "J \<noteq> []"
    unfolding J_def using ne nonempty by (rule joinWith_not_Nil)
  have "last J = last (last segs)"
    unfolding J_def using ne nonempty by (rule joinWith_last)
  moreover have "last segs \<in> set segs" using ne by simp
  ultimately have J_last: "last J \<noteq> CHR ''/''"
    using nonempty nosep last_in_set by metis
  have split_J: "splitPath J = segs"
    unfolding J_def using ne nosep by (rule splitPath_joinWith)
  have keep: "filter (\<lambda>arg. arg \<noteq> []) segs = segs"
    using nonempty by (simp add: filter_id_conv)
  show ?thesis
  proof (cases "dir = []")
    case True
    have "join (dir # segs) = normalize_posix J"
      using True keep J_ne by (simp add: join_def J_def)
    moreover have "normalizeString J a = J" for a
      by (simp add: normalizeString_def split_J foldl_normalizeSegment_ordinary [OF ord])
        (simp add: J_def)
    ultimately have "join (dir # segs) = (if hd J = CHR ''/'' then ''/'' else []) @ J"
      using J_ne J_last by (simp add: normalize_posix_def Let_def)
    then show ?thesis unfolding J_def by (intro exI [of _ "if hd J = CHR ''/'' then ''/'' else []"]) (simp add: J_def)
  next
    case False
    define res where "res = foldl (normalizeSegment (hd (dir @ ''/'' @ J) \<noteq> CHR ''/'')) [] (splitPath dir)"
    define joined where "joined = dir @ ''/'' @ J"
    have joined: "joinWith ''/'' (filter (\<lambda>arg. arg \<noteq> []) (dir # segs)) = joined"
      using False keep ne by (cases segs) (simp_all add: joined_def J_def)
    have joined_ne: "joined \<noteq> []" by (simp add: joined_def)
    have joined_last: "last joined \<noteq> CHR ''/''"
      using J_ne J_last by (simp add: joined_def)
    have "splitPath joined = splitPath dir @ segs"
      using splitPath_append_separator [of dir J] by (simp add: joined_def split_J)
    then have p: "normalizeString joined (hd joined \<noteq> CHR ''/'') = joinWith ''/'' (res @ segs)"
      by (simp add: normalizeString_def foldl_normalizeSegment_ordinary [OF ord] res_def joined_def)
    have p_eq: "joinWith ''/'' (res @ segs) = (if res = [] then [] else joinWith ''/'' res @ ''/'') @ J"
      using ne by (simp add: joinWith_append J_def)
    have "join (dir # segs) = normalize_posix joined"
      using joined joined_ne by (simp add: join_def)
    also have "\<dots> = (if hd joined = CHR ''/'' then ''/'' else []) @ joinWith ''/'' (res @ segs)"
      using joined_ne joined_last p p_eq J_ne by (simp add: normalize_posix_def Let_def)
    finally have "join (dir # segs) =
        ((if hd joined = CHR ''/'' then ''/'' else []) @
         (if res = [] then [] else joinWith ''/'' res @ ''/'')) @ J"
      by (simp add: p_eq)
    then show ?thesis
      unfolding J_def
      by (intro exI [of _ "(if hd joined = CHR ''/'' then ''/'' else []) @
         (if res = [] then [] else joinWith ''/'' res @ ''/'')"]) simp
  qed
qed


subsection \<open>Joining onto a normalised path\<close>

lemma splitPath_segments_no_separator:
  "\<forall>seg \<in> set (splitPath s). CHR ''/'' \<notin> set seg"
proof (induction s)
  case Nil
  show ?case by simp
next
  case (Cons c cs)
  obtain seg segs where "splitPath cs = seg # segs"
    using splitPath_not_Nil [of cs] by (cases "splitPath cs") auto
  with Cons show ?case by auto
qed

lemma normalSegments_Nil: "normalSegments a []"
  unfolding normalSegments_def by (intro exI [of _ 0] exI [of _ "[]"]) simp

lemma normalSegments_snoc:
  assumes "normalSegments a res" and "ordinarySegment seg"
  shows "normalSegments a (res @ [seg])"
proof -
  from assms(1) obtain k rest where
    "res = replicate k ''..'' @ rest" "\<forall>s \<in> set rest. ordinarySegment s" "0 < k \<longrightarrow> a"
    unfolding normalSegments_def by blast
  with assms(2) show ?thesis
    unfolding normalSegments_def
    by (intro exI [of _ k] exI [of _ "rest @ [seg]"]) simp
qed

lemma normalizeSegment_normal:
  assumes nf: "normalSegments a res" and nosep: "CHR ''/'' \<notin> set seg"
  shows "normalSegments a (normalizeSegment a res seg)"
proof -
  from nf obtain k rest where
    res: "res = replicate k ''..'' @ rest" and ord: "\<forall>s \<in> set rest. ordinarySegment s"
    and ka: "0 < k \<longrightarrow> a"
    unfolding normalSegments_def by blast
  consider (skip) "seg = [] \<or> seg = ''.''" | (up) "seg = ''..''"
    | (plain) "seg \<noteq> []" "seg \<noteq> ''.''" "seg \<noteq> ''..''"
    by blast
  then show ?thesis
  proof cases
    case skip
    then show ?thesis using nf by (auto simp: normalizeSegment_def)
  next
    case plain
    with nosep have "ordinarySegment seg" by (simp add: ordinarySegment_def)
    with nf plain show ?thesis
      by (simp add: normalizeSegment_def normalSegments_snoc)
  next
    case up
    show ?thesis
    proof (cases "rest = []")
      case True
      then have res': "res = replicate k ''..''" using res by simp
      then have nolast: "\<not> (res \<noteq> [] \<and> last res \<noteq> ''..'')" by (cases k) auto
      show ?thesis
      proof (cases a)
        case True
        have "res @ [''..''] = replicate (Suc k) ''..'' @ []"
          by (simp add: res' replicate_append_same)
        then have "normalSegments a (res @ [''..''])"
          unfolding normalSegments_def using True
          by (intro exI [of _ "Suc k"] exI [of _ "[]"]) simp
        with up nolast True show ?thesis by (auto simp: normalizeSegment_def)
      next
        case False
        with up nolast nf show ?thesis by (auto simp: normalizeSegment_def)
      qed
    next
      case False
      then have "last res = last rest" using res by simp
      moreover have "last rest \<in> set rest" using False by simp
      ultimately have "last res \<noteq> ''..''" using ord by (auto simp: ordinarySegment_def)
      moreover have "res \<noteq> []" using False res by simp
      moreover have "butlast res = replicate k ''..'' @ butlast rest"
        using False res by (simp add: butlast_append)
      moreover have "\<forall>s \<in> set (butlast rest). ordinarySegment s"
        using ord by (auto dest: in_set_butlastD)
      ultimately have "normalizeSegment a res seg = replicate k ''..'' @ butlast rest"
        and "\<forall>s \<in> set (butlast rest). ordinarySegment s"
        using up by (simp_all add: normalizeSegment_def)
      then show ?thesis
        using ka unfolding normalSegments_def
        by (intro exI [of _ k] exI [of _ "butlast rest"]) simp
    qed
  qed
qed

lemma foldl_normalizeSegment_normal:
  "normalSegments a res \<Longrightarrow> \<forall>seg \<in> set segs. CHR ''/'' \<notin> set seg
   \<Longrightarrow> normalSegments a (foldl (normalizeSegment a) res segs)"
  by (induction segs arbitrary: res) (simp_all add: normalizeSegment_normal)

lemma foldl_normalizeSegment_dots:
  "a \<Longrightarrow> foldl (normalizeSegment a) (replicate j ''..'') (replicate k ''..'')
         = replicate (j + k) ''..''"
proof (induction k arbitrary: j)
  case 0
  show ?case by simp
next
  case (Suc k)
  have "\<not> (replicate j ''..'' \<noteq> [] \<and> last (replicate j ''..'') \<noteq> ''..'')"
    by (cases j) auto
  with Suc.prems have "normalizeSegment a (replicate j ''..'') ''..'' = replicate (Suc j) ''..''"
    by (auto simp: normalizeSegment_def replicate_append_same)
  with Suc.IH [OF Suc.prems, of "Suc j"] show ?case by simp
qed

lemma foldl_normalizeSegment_normal_id:
  assumes "normalSegments a S"
  shows "foldl (normalizeSegment a) [] S = S"
proof -
  from assms obtain k rest where
    S: "S = replicate k ''..'' @ rest" and ord: "\<forall>s \<in> set rest. ordinarySegment s"
    and ka: "0 < k \<longrightarrow> a"
    unfolding normalSegments_def by blast
  have "foldl (normalizeSegment a) [] (replicate k ''..'') = replicate k ''..''"
  proof (cases k)
    case 0
    then show ?thesis by simp
  next
    case (Suc m)
    with ka have a by simp
    from foldl_normalizeSegment_dots [OF this, of 0 k] show ?thesis by simp
  qed
  then show ?thesis
    by (simp add: S foldl_normalizeSegment_ordinary [OF ord])
qed

lemma normalSegments_no_separator:
  assumes "normalSegments a S"
  shows "\<forall>seg \<in> set S. seg \<noteq> [] \<and> CHR ''/'' \<notin> set seg"
proof
  fix seg
  assume seg: "seg \<in> set S"
  from assms obtain k rest where
    S: "S = replicate k ''..'' @ rest" and ord: "\<forall>s \<in> set rest. ordinarySegment s"
    unfolding normalSegments_def by blast
  from seg S have "seg \<in> set (replicate k ''..'') \<or> seg \<in> set rest" by simp
  then show "seg \<noteq> [] \<and> CHR ''/'' \<notin> set seg"
  proof
    assume "seg \<in> set (replicate k ''..'')"
    then have "seg = ''..''" by (simp split: if_splits)
    then show ?thesis by simp
  next
    assume "seg \<in> set rest"
    with ord have "ordinarySegment seg" by blast
    then show ?thesis by (simp add: ordinarySegment_def)
  qed
qed

lemma joinWith_hd:
  "S \<noteq> [] \<Longrightarrow> hd S \<noteq> [] \<Longrightarrow> hd (joinWith sep S) = hd (hd S)"
  by (induction sep S rule: joinWith.induct) simp_all

lemma join_onto_normal_path:
  assumes nf: "normalSegments a S" and ne: "S \<noteq> []" and x: "ordinarySegment x"
    and P: "P = (if a then [] else ''/'') @ joinWith ''/'' S"
  shows "join [P, x] = P @ ''/'' @ x"
proof -
  from normalSegments_no_separator [OF nf]
  have nonempty: "\<forall>seg \<in> set S. seg \<noteq> []" and nosep: "\<forall>seg \<in> set S. CHR ''/'' \<notin> set seg"
    by auto
  define J where "J = joinWith ''/'' S"
  have J_ne: "J \<noteq> []" unfolding J_def using ne nonempty by (rule joinWith_not_Nil)
  have "hd S \<in> set S" using ne by simp
  then have "hd S \<noteq> []" "CHR ''/'' \<notin> set (hd S)" using nonempty nosep by auto
  then have "hd (hd S) \<noteq> CHR ''/''" by (cases "hd S") auto
  moreover have "hd J = hd (hd S)"
    unfolding J_def using ne \<open>hd S \<noteq> []\<close> by (rule joinWith_hd)
  ultimately have J_hd: "hd J \<noteq> CHR ''/''" by simp
  have split_J: "splitPath J = S" unfolding J_def using ne nosep by (rule splitPath_joinWith)
  have P_J: "P = (if a then [] else ''/'') @ J" by (simp add: P J_def)
  have P_ne: "P \<noteq> []" using J_ne by (simp add: P_J)
  have P_hd: "(hd P = CHR ''/'') = (\<not> a)" using J_hd J_ne by (simp add: P_J)
  have x_ne: "x \<noteq> []" and x_nosep: "CHR ''/'' \<notin> set x" using x by (auto simp: ordinarySegment_def)
  have x_last: "last x \<noteq> CHR ''/''" using x_ne x_nosep last_in_set by metis
  define joined where "joined = P @ ''/'' @ x"
  have joined_ne: "joined \<noteq> []" by (simp add: joined_def)
  have joined_hd: "(hd joined = CHR ''/'') = (\<not> a)" using P_ne P_hd by (simp add: joined_def)
  have joined_last: "last joined \<noteq> CHR ''/''" using x_ne x_last by (simp add: joined_def)
  have "splitPath P = (if a then S else [] # S)"
    by (simp add: P_J split_J)
  moreover have "splitPath joined = splitPath P @ [x]"
    using splitPath_append_separator [of P x] x_nosep
    by (simp add: joined_def splitPath_no_separator)
  ultimately have "foldl (normalizeSegment a) [] (splitPath joined)
                   = foldl (normalizeSegment a) (foldl (normalizeSegment a) [] S) [x]"
    by (simp add: normalizeSegment_def)
  also have "\<dots> = S @ [x]"
    using x by (simp add: foldl_normalizeSegment_normal_id [OF nf] normalizeSegment_ordinary)
  finally have "normalizeString joined a = J @ ''/'' @ x"
    using ne by (simp add: normalizeString_def joinWith_append J_def)
  then have "normalize_posix joined = (if a then [] else ''/'') @ J @ ''/'' @ x"
    using joined_ne joined_hd joined_last J_ne by (simp add: normalize_posix_def Let_def)
  moreover have "join [P, x] = normalize_posix joined"
    using P_ne x_ne by (simp add: join_def joined_def)
  ultimately show ?thesis by (simp add: P_J)
qed

lemma join_normal_form:
  assumes ne: "segs \<noteq> []" and ord: "\<forall>seg \<in> set segs. ordinarySegment seg"
  shows "\<exists>a S. normalSegments a S
               \<and> join (dir # segs) = (if a then [] else ''/'') @ joinWith ''/'' (S @ segs)"
proof -
  define J where "J = joinWith ''/'' segs"
  from ord have nonempty: "\<forall>seg \<in> set segs. seg \<noteq> []"
    and nosep: "\<forall>seg \<in> set segs. CHR ''/'' \<notin> set seg"
    by (auto simp: ordinarySegment_def)
  have J_ne: "J \<noteq> []"
    unfolding J_def using ne nonempty by (rule joinWith_not_Nil)
  have "last J = last (last segs)"
    unfolding J_def using ne nonempty by (rule joinWith_last)
  moreover have "last segs \<in> set segs" using ne by simp
  ultimately have J_last: "last J \<noteq> CHR ''/''"
    using nonempty nosep last_in_set by metis
  have split_J: "splitPath J = segs"
    unfolding J_def using ne nosep by (rule splitPath_joinWith)
  have keep: "filter (\<lambda>arg. arg \<noteq> []) segs = segs"
    using nonempty by (simp add: filter_id_conv)
  define joined where "joined = (if dir = [] then J else dir @ ''/'' @ J)"
  define a where "a = (hd joined \<noteq> CHR ''/'')"
  define S where "S = (if dir = [] then [] else foldl (normalizeSegment a) [] (splitPath dir))"
  have joined: "joinWith ''/'' (filter (\<lambda>arg. arg \<noteq> []) (dir # segs)) = joined"
    using keep ne by (cases segs) (simp_all add: joined_def J_def)
  have joined_ne: "joined \<noteq> []" using J_ne by (simp add: joined_def)
  have joined_last: "last joined \<noteq> CHR ''/''"
    using J_ne J_last by (simp add: joined_def)
  have "splitPath joined = (if dir = [] then [] else splitPath dir) @ segs"
    using splitPath_append_separator [of dir J] by (simp add: joined_def split_J)
  then have "foldl (normalizeSegment a) [] (splitPath joined) = S @ segs"
    by (simp add: S_def foldl_normalizeSegment_ordinary [OF ord])
  then have p: "normalizeString joined a = joinWith ''/'' (S @ segs)"
    by (simp add: normalizeString_def)
  have "joinWith ''/'' (S @ segs) \<noteq> []"
    using ne nonempty J_ne by (cases "S = []") (simp_all add: joinWith_append J_def)
  then have "normalize_posix joined = (if a then [] else ''/'') @ joinWith ''/'' (S @ segs)"
    using joined_ne joined_last p by (simp add: normalize_posix_def Let_def a_def)
  moreover have "join (dir # segs) = normalize_posix joined"
    using joined joined_ne by (simp add: join_def)
  moreover have "normalSegments a S"
    unfolding S_def
    using foldl_normalizeSegment_normal [OF normalSegments_Nil splitPath_segments_no_separator]
    by (simp add: normalSegments_Nil)
  ultimately show ?thesis
    by (intro exI [of _ a] exI [of _ S]) simp
qed

lemma join_under_joined:
  assumes ne: "segs \<noteq> []" and ord: "\<forall>seg \<in> set segs. ordinarySegment seg"
    and x: "ordinarySegment x"
  shows "join [join (dir # segs), x] = join (dir # segs) @ ''/'' @ x"
proof -
  from join_normal_form [OF ne ord, of dir] obtain a S where
    nf: "normalSegments a S"
    and eq: "join (dir # segs) = (if a then [] else ''/'') @ joinWith ''/'' (S @ segs)"
    by blast
  have "normalSegments a (S @ segs)"
    using ord nf
  proof (induction segs rule: rev_induct)
    case Nil
    then show ?case by simp
  next
    case (snoc s segs)
    then show ?case
      using normalSegments_snoc [of a "S @ segs" s] by simp
  qed
  moreover have "S @ segs \<noteq> []" using ne by simp
  ultimately show ?thesis using x eq by (rule join_onto_normal_path)
qed


subsection \<open>The time stamp\<close>

lemma pad_digits: "list_all isDigit (padStart w (numberToString n))"
  by (rule padStart_digits) (rule numberToString_digits)

lemma filter_pad:
  "filter (\<lambda>c. c \<noteq> CHR ''-'' \<and> c \<noteq> CHR '':'') (padStart w (numberToString n))
   = padStart w (numberToString n)"
  using removeDashesAndColons_digits [OF pad_digits, of w n]
  by (simp add: removeDashesAndColons_def)

lemma compactDate_digits: "list_all isDigit (compactDate d)"
  by (simp add: compactDate_def pad_digits)

lemma compactTime_digits: "list_all isDigit (compactTime d)"
  by (simp add: compactTime_def pad_digits)

lemma compactDate_length: "validDate d \<Longrightarrow> length (compactDate d) = 8"
  by (simp add: compactDate_def validDate_def padStart_length numberToString_length_2
      numberToString_length_4)

lemma compactTime_length: "validDate d \<Longrightarrow> length (compactTime d) = 6"
  by (simp add: compactTime_def validDate_def padStart_length numberToString_length_2)

lemma formattedDate_compact:
  assumes "utcFullYear d \<le> 9999"
  shows "formattedDate d = compactDate d @ ''T'' @ compactTime d @ ''Z''"
proof -
  define ms where "ms = padStart 3 (numberToString (utcMilliseconds d))"
  have ms: "list_all isDigit ms" "ms \<noteq> []"
    by (simp add: ms_def pad_digits) (simp add: ms_def padStart_def numberToString_not_Nil)
  have rd: "removeDashesAndColons (toISOString d)
        = (compactDate d @ ''T'' @ compactTime d) @ ''.'' @ ms @ ''Z''"
    using assms
    by (simp add: toISOString_def compactDate_def compactTime_def ms_def
        removeDashesAndColons_def filter_pad)
  have nodot: "CHR ''.'' \<notin> set (compactDate d @ ''T'' @ compactTime d)"
    using compactDate_digits [of d] compactTime_digits [of d]
    by (auto simp: list_all_iff dest: isDigit_not_punct)
  have "formattedDate d
        = replaceFractionZ ((compactDate d @ ''T'' @ compactTime d) @ ''.'' @ ms @ ''Z'')"
    by (simp only: formattedDate_def rd)
  also have "\<dots> = (compactDate d @ ''T'' @ compactTime d) @ ''Z''"
    using nodot ms(2) ms(1) by (rule replaceFractionZ_at_fraction)
  finally show ?thesis by simp
qed


subsection \<open>The generator\<close>

lemma getAnalysesResults_next_at:
  assumes "loadResults env (va_id va) (fullName (repository (rs ! i))) True = Inr res"
    and "i < length rs"
  shows "getAnalysesResults_next env (Some va) (Some rs) (stateAfter rs i) =
           ([loadOf va (rs ! i)], Inr (IterValue (rs ! i, res)), stateAfter rs (Suc i))"
proof (cases i)
  case 0
  with assms obtain repo rest where rs: "rs = repo # rest" by (cases rs) auto
  with assms 0 show ?thesis
    by (simp add: stateAfter_def getAnalysesResults_loop_def loadOf_def)
next
  case (Suc j)
  from assms(2) have "drop i rs = rs ! i # drop (Suc i) rs"
    by (simp add: Cons_nth_drop_Suc)
  with assms Suc show ?thesis
    by (simp add: stateAfter_def getAnalysesResults_loop_def loadOf_def)
qed

lemma getAnalysesResults_next_end:
  assumes "length rs \<le> i"
  shows "getAnalysesResults_next env (Some va) (Some rs) (stateAfter rs i) =
           ([], Inr IterDone, GenCompleted)"
  using assms by (cases i) (auto simp: stateAfter_def getAnalysesResults_loop_def)

lemma stateAfter_end:
  assumes "length rs \<le> i"
  shows "stateAfter rs (Suc i) = GenCompleted"
  using assms by (simp add: stateAfter_def)

lemma consume_from:
  fixes res :: "VariantAnalysisScannedRepository \<Rightarrow> 'r"
  assumes loads: "\<forall>repo \<in> set rs.
                    loadResults env (va_id va) (fullName (repository repo)) True = Inr (res repo)"
    and nxt: "nxt = getAnalysesResults_next env (Some va) (Some rs)"
  shows "fst (consume nxt c (stateAfter rs i)) =
           map (loadOf va) (take (requests nxt c (stateAfter rs i)) (drop i rs))
         \<and> snd (snd (consume nxt c (stateAfter rs i))) =
           stateAfter rs (i + requests nxt c (stateAfter rs i))"
proof (induction c arbitrary: i)
  case (Resolve v)
  show ?case by simp
next
  case (Reject e)
  show ?case by simp
next
  case (AwaitNext k)
  show ?case
  proof (cases "i < length rs")
    case True
    with loads have ld: "loadResults env (va_id va) (fullName (repository (rs ! i))) True
                         = Inr (res (rs ! i))"
      by simp
    define r :: "exn + (VariantAnalysisScannedRepository \<times> 'r) IteratorResult"
      where "r = Inr (IterValue (rs ! i, res (rs ! i)))"
    have call: "nxt (stateAfter rs i) = ([loadOf va (rs ! i)], r, stateAfter rs (Suc i))"
      unfolding nxt r_def by (rule getAnalysesResults_next_at [OF ld True])
    obtain tr' out st'' where rest: "consume nxt (k r) (stateAfter rs (Suc i)) = (tr', out, st'')"
      by (cases "consume nxt (k r) (stateAfter rs (Suc i))") auto
    from AwaitNext.IH [OF rangeI, of r "Suc i"] rest
    have ih: "tr' = map (loadOf va) (take (requests nxt (k r) (stateAfter rs (Suc i)))
                                       (drop (Suc i) rs))"
      "st'' = stateAfter rs (Suc i + requests nxt (k r) (stateAfter rs (Suc i)))"
      by simp_all
    from True have dr: "drop i rs = rs ! i # drop (Suc i) rs"
      by (simp add: Cons_nth_drop_Suc)
    show ?thesis
      by (simp add: call rest dr ih [symmetric]) (simp add: ih)
  next
    case False
    then have le: "length rs \<le> i" by simp
    define r :: "exn + (VariantAnalysisScannedRepository \<times> 'r) IteratorResult"
      where "r = Inr IterDone"
    have call: "nxt (stateAfter rs i) = ([], r, stateAfter rs (Suc i))"
      unfolding nxt r_def
      by (simp add: getAnalysesResults_next_end [OF le] stateAfter_end [OF le])
    obtain tr' out st'' where rest: "consume nxt (k r) (stateAfter rs (Suc i)) = (tr', out, st'')"
      by (cases "consume nxt (k r) (stateAfter rs (Suc i))") auto
    from AwaitNext.IH [OF rangeI, of r "Suc i"] rest
    have ih: "tr' = map (loadOf va) (take (requests nxt (k r) (stateAfter rs (Suc i)))
                                       (drop (Suc i) rs))"
      "st'' = stateAfter rs (Suc i + requests nxt (k r) (stateAfter rs (Suc i)))"
      by simp_all
    from le have dr: "drop i rs = []" "drop (Suc i) rs = []" by simp_all
    show ?thesis
      by (simp add: call rest dr) (simp add: ih dr)
  qed
qed

subsection \<open>The local export\<close>

lemma writeMarkdownFiles_ok:
  assumes "\<forall>eff. fsError env eff = None"
  shows "writeMarkdownFiles env dir markdownFiles = (map (writeOf dir) markdownFiles, Inr ())"
  using assms
  by (induction markdownFiles)
    (simp_all add: io_return_def io_bind_def fsCall_def io_emit_def writeOf_def)

lemma exportToLocalMarkdown_ok:
  assumes fsok: "\<forall>eff. fsError env eff = None"
    and live: "case token of None \<Rightarrow> True | Some isCancelled \<Rightarrow> \<not> isCancelled BeforeWrite"
  shows "exportToLocalMarkdown env dir markdownFiles progress token =
           ((if progress then [Progress 2 2 ''Creating local Markdown files''] else []) @
            [EnsureDir dir] @ map (writeOf dir) markdownFiles @
            [ShowInformationMessageWithAction (exportedMessage dir) ''Open exported results''] @
            (if showInformationMessageWithAction env (exportedMessage dir) ''Open exported results''
             then [OpenTextDocument (join [dir, ''_summary.md'']),
                   ShowTextDocument (join [dir, ''_summary.md'']),
                   ExecuteCommand ''revealFileInOS'' (join [dir, ''_summary.md''])]
             else []),
            Inr ())"
proof -
  have "checkCancelled token BeforeWrite = ([], Inr ())"
    using live by (simp add: checkCancelled_def io_return_def split: option.splits)
  moreover have "fsCall env (EnsureDir dir) = ([EnsureDir dir], Inr ())"
    using fsok by (simp add: fsCall_def io_emit_def)
  ultimately show ?thesis
    by (simp add: exportToLocalMarkdown_def writeMarkdownFiles_ok [OF fsok] io_bind_def
        io_when_def io_emit_def io_return_def Let_def
        MAX_VARIANT_ANALYSIS_EXPORT_PROGRESS_STEPS_def)
qed

lemma exportVariantAnalysisResults_local:
  assumes found: "getVariantAnalysis env variantAnalysisId = Some variantAnalysis"
    and live: "\<forall>cp. \<not> isCancellationRequested env cp"
    and pick: "showQuickPick env = Some LocalMarkdownOption"
    and rendered: "awaitConsumer
                     (generateVariantAnalysisMarkdown env variantAnalysis
                        (case repositoriesToExport env variantAnalysis filterSort
                                (getRepoStates env variantAnalysisId) of
                           None \<Rightarrow> 0 | Some rs \<Rightarrow> length rs) Local)
                     (getAnalysesResults env (Some variantAnalysis)
                        (repositoriesToExport env variantAnalysis filterSort
                           (getRepoStates env variantAnalysisId)))
                   = (loads, Inr (markdownFiles, summaries))"
    and fsok: "\<forall>eff. fsError env eff = None"
    and dir: "dir = exportedResultsDirectory
                      (getVariantAnalysisStorageLocation env (va_id variantAnalysis))
                      (currentDate env)"
  shows "exportVariantAnalysisResults env variantAnalysisId filterSort =
           ([Log (''Exporting variant analysis results for variant analysis with id '' @
                  numberToString (va_id variantAnalysis)),
             Progress 2 0 ''Determining export format'',
             ShowQuickPick [GistOption, LocalMarkdownOption] ''Select export format'',
             Progress 2 1 ''Generating Markdown files''] @ loads @
            [Progress 2 2 ''Creating local Markdown files'', EnsureDir dir] @
            map (writeOf dir) markdownFiles @
            [ShowInformationMessageWithAction (exportedMessage dir) ''Open exported results''] @
            (if showInformationMessageWithAction env (exportedMessage dir) ''Open exported results''
             then [OpenTextDocument (join [dir, ''_summary.md'']),
                   ShowTextDocument (join [dir, ''_summary.md'']),
                   ExecuteCommand ''revealFileInOS'' (join [dir, ''_summary.md''])]
             else []),
            Inr ())"
proof -
  have cc: "checkCancelled (Some (isCancellationRequested env)) cp = ([], Inr ())" for cp
    using live by (simp add: checkCancelled_def io_return_def)
  have fmt: "determineExportFormat env =
               ([ShowQuickPick [GistOption, LocalMarkdownOption] ''Select export format''],
                Inr (Some Local))"
    using pick
    by (simp add: determineExportFormat_def label_def io_bind_def io_emit_def io_return_def)
  have local: "exportToLocalMarkdown env dir markdownFiles True (Some (isCancellationRequested env)) =
           ([Progress 2 2 ''Creating local Markdown files''] @
            [EnsureDir dir] @ map (writeOf dir) markdownFiles @
            [ShowInformationMessageWithAction (exportedMessage dir) ''Open exported results''] @
            (if showInformationMessageWithAction env (exportedMessage dir) ''Open exported results''
             then [OpenTextDocument (join [dir, ''_summary.md'']),
                   ShowTextDocument (join [dir, ''_summary.md'']),
                   ExecuteCommand ''revealFileInOS'' (join [dir, ''_summary.md''])]
             else []),
            Inr ())"
    using exportToLocalMarkdown_ok [OF fsok, of "Some (isCancellationRequested env)" dir markdownFiles True]
      live by simp
  have res: "exportResults env dir description markdownFiles Local True
               (Some (isCancellationRequested env)) =
             exportToLocalMarkdown env dir markdownFiles True (Some (isCancellationRequested env))"
    for description
    by (simp add: exportResults_def cc io_bind_def)
  have inner: "exportVariantAnalysisAnalysisResults env dir variantAnalysis
                 (getAnalysesResults env (Some variantAnalysis)
                    (repositoriesToExport env variantAnalysis filterSort
                       (getRepoStates env variantAnalysisId)))
                 (case repositoriesToExport env variantAnalysis filterSort
                             (getRepoStates env variantAnalysisId) of
                        None \<Rightarrow> 0 | Some rs \<Rightarrow> length rs) Local (isCancellationRequested env) =
               (Progress 2 1 ''Generating Markdown files'' # loads @
                fst (exportToLocalMarkdown env dir markdownFiles True
                       (Some (isCancellationRequested env))),
                Inr ())"
    by (simp add: exportVariantAnalysisAnalysisResults_def cc io_bind_def io_emit_def rendered
        res local MAX_VARIANT_ANALYSIS_EXPORT_PROGRESS_STEPS_def)
  show ?thesis
    unfolding exportVariantAnalysisResults_def
    by (simp add: found cc fmt io_bind_def io_emit_def dir [symmetric] inner local
        MAX_VARIANT_ANALYSIS_EXPORT_PROGRESS_STEPS_def Let_def)
qed

subsection \<open>Where the export loads results\<close>

lemma loads_bind:
  "filter isLoad (fst (io_bind m f)) =
     filter isLoad (fst m) @
     (case snd m of Inl e \<Rightarrow> [] | Inr v \<Rightarrow> filter isLoad (fst (f v)))"
  by (cases m) (auto simp: io_bind_def split: sum.splits prod.splits)

lemma loads_checkCancelled:
  "filter isLoad (fst (checkCancelled token cp)) = []"
  by (simp add: checkCancelled_def io_return_def io_throw_def split: option.splits)

lemma loads_fsCall:
  "\<not> isLoad eff \<Longrightarrow> filter isLoad (fst (fsCall env eff)) = []"
  by (simp add: fsCall_def io_throw_def io_emit_def split: option.splits)

lemma loads_writeMarkdownFiles:
  "filter isLoad (fst (writeMarkdownFiles env dir markdownFiles)) = []"
  by (induction markdownFiles)
    (simp_all add: io_return_def loads_bind loads_fsCall split: sum.splits)

lemma loads_exportToLocalMarkdown:
  "filter isLoad (fst (exportToLocalMarkdown env dir markdownFiles progress token)) = []"
  by (simp add: exportToLocalMarkdown_def loads_bind loads_checkCancelled loads_fsCall
      loads_writeMarkdownFiles io_when_def io_emit_def io_return_def Let_def
      split: sum.splits)

lemma loads_exportToGist:
  "filter isLoad (fst (exportToGist env description markdownFiles progress token)) = []"
  by (simp add: exportToGist_def loads_bind loads_checkCancelled io_when_def io_emit_def
      io_return_def io_throw_def split: sum.splits option.splits)

lemma loads_exportResults:
  "filter isLoad (fst (exportResults env dir description markdownFiles exportFormat progress token))
     = []"
  by (simp add: exportResults_def loads_bind loads_checkCancelled loads_exportToGist
      loads_exportToLocalMarkdown split: sum.splits ExportFormat.splits)

lemma loads_exportVariantAnalysisAnalysisResults:
  "filter isLoad
     (fst (exportVariantAnalysisAnalysisResults env dir variantAnalysis analysesResults expected
             exportFormat token)) =
     (if token BeforeGenerate then []
      else filter isLoad
             (fst (awaitConsumer
                     (generateVariantAnalysisMarkdown env variantAnalysis expected exportFormat)
                     analysesResults)))"
  by (simp add: exportVariantAnalysisAnalysisResults_def loads_bind checkCancelled_def
      io_throw_def io_return_def io_emit_def loads_exportResults
      split: sum.splits prod.splits)

lemma loads_map_loadOf:
  "filter isLoad (map (loadOf variantAnalysis) repositories) =
     map (loadOf variantAnalysis) repositories"
  by (induction repositories) (simp_all add: loadOf_def)

subsection \<open>Selecting the repositories\<close>

lemma selectedForExport_iff:
  "selectedForExport repoStates repo \<longleftrightarrow>
     resultCount repo \<noteq> None \<and> resultCount repo \<noteq> Some 0 \<and>
     (\<exists>st. find (\<lambda>r. repositoryId r = repo_id (repository repo)) repoStates = Some st
           \<and> downloadStatus st = DownloadSucceeded)"
  unfolding selectedForExport_def
  by (cases "resultCount repo";
      cases "find (\<lambda>r. repositoryId r = repo_id (repository repo)) repoStates") simp_all

text \<open>
  C7. The repositories selected for export are obtained from the result of the
  filter-and-sort function on the job's scanned repositories (there is no selection when
  that function returns none): the selection keeps the order of that result and consists
  of exactly those of its repositories whose result count is present and not 0 and whose
  download state, the first one recorded for the repository id, is \<open>Succeeded\<close>.
  A repository without results, with 0 results, without a recorded download state or
  with any other download state is left out. The sort key of the criteria is one of
  name, result count, stars and last updated.
\<close>

theorem repositoriesToExport_selection:
  "(case filterAndSortRepositoriesWithResults env (scannedRepos variantAnalysis) filterSort of
      None \<Rightarrow> repositoriesToExport env variantAnalysis filterSort repoStates = None
    | Some ordered \<Rightarrow>
        (\<exists>selected.
           repositoriesToExport env variantAnalysis filterSort repoStates = Some selected
           \<and> subseq selected ordered
           \<and> (\<forall>repo. repo \<in> set selected \<longleftrightarrow>
                 repo \<in> set ordered \<and> resultCount repo \<noteq> None \<and> resultCount repo \<noteq> Some 0 \<and>
                 (\<exists>st. find (\<lambda>r. repositoryId r = repo_id (repository repo)) repoStates = Some st
                       \<and> downloadStatus st = DownloadSucceeded))))
   \<and> sortKey criteria \<in> {Name, ResultsCount, Stars, LastUpdated}"
proof (cases "filterAndSortRepositoriesWithResults env (scannedRepos variantAnalysis) filterSort")
  case None
  then show ?thesis
    by (cases "sortKey criteria") (simp_all add: repositoriesToExport_def)
next
  case (Some ordered)
  have "repositoriesToExport env variantAnalysis filterSort repoStates
        = Some (filter (selectedForExport repoStates) ordered)"
    by (simp add: repositoriesToExport_def Some)
  moreover have "subseq (filter (selectedForExport repoStates) ordered) ordered"
    by simp
  moreover have "\<forall>repo. repo \<in> set (filter (selectedForExport repoStates) ordered) \<longleftrightarrow>
                 repo \<in> set ordered \<and> resultCount repo \<noteq> None \<and> resultCount repo \<noteq> Some 0 \<and>
                 (\<exists>st. find (\<lambda>r. repositoryId r = repo_id (repository repo)) repoStates = Some st
                       \<and> downloadStatus st = DownloadSucceeded)"
    by (simp add: selectedForExport_iff)
  moreover have "sortKey criteria \<in> {Name, ResultsCount, Stars, LastUpdated}"
    by (cases "sortKey criteria") simp_all
  ultimately show ?thesis using Some by simp
qed

theorem repositoriesToExport_selection_witness:
  "\<exists>selected.
     repositoriesToExport (sampleEnv None) sampleVariantAnalysis None sampleRepoStates
       = Some selected
     \<and> subseq selected (scannedRepos sampleVariantAnalysis)
     \<and> sampleRepository 1 ''octo/alpha'' (Some 3) \<in> set selected
     \<and> sampleRepository 2 ''octo/beta'' (Some 5) \<notin> set selected
     \<and> sampleRepository 3 ''octo/gamma'' (Some 0) \<notin> set selected
     \<and> sampleRepository 4 ''octo/delta'' (Some 2) \<in> set selected"
proof -
  have ordered: "filterAndSortRepositoriesWithResults (sampleEnv None)
                   (scannedRepos sampleVariantAnalysis) None
                 = Some (scannedRepos sampleVariantAnalysis)"
    by (simp add: sampleEnv_def)
  from repositoriesToExport_selection
         [where env = "sampleEnv None" and variantAnalysis = sampleVariantAnalysis
            and filterSort = None and repoStates = sampleRepoStates
            and criteria = "\<lparr>searchValue = [], sortKey = Name, repositoryIds = None\<rparr>"]
  obtain selected where
    sel: "repositoriesToExport (sampleEnv None) sampleVariantAnalysis None sampleRepoStates
          = Some selected"
    and sub: "subseq selected (scannedRepos sampleVariantAnalysis)"
    and mem: "\<And>repo. repo \<in> set selected \<longleftrightarrow>
                 repo \<in> set (scannedRepos sampleVariantAnalysis) \<and> resultCount repo \<noteq> None \<and>
                 resultCount repo \<noteq> Some 0 \<and>
                 (\<exists>st. find (\<lambda>r. repositoryId r = repo_id (repository repo)) sampleRepoStates
                         = Some st \<and> downloadStatus st = DownloadSucceeded)"
    unfolding ordered by auto
  have "sampleRepository 1 ''octo/alpha'' (Some 3) \<in> set selected"
    unfolding mem
    by (simp add: sampleVariantAnalysis_def sampleRepoStates_def sampleRepository_def)
  moreover have "sampleRepository 2 ''octo/beta'' (Some 5) \<notin> set selected"
    unfolding mem
    by (simp add: sampleVariantAnalysis_def sampleRepoStates_def sampleRepository_def)
  moreover have "sampleRepository 3 ''octo/gamma'' (Some 0) \<notin> set selected"
    unfolding mem
    by (simp add: sampleVariantAnalysis_def sampleRepoStates_def sampleRepository_def)
  moreover have "sampleRepository 4 ''octo/delta'' (Some 2) \<in> set selected"
    unfolding mem
    by (simp add: sampleVariantAnalysis_def sampleRepoStates_def sampleRepository_def)
  ultimately show ?thesis using sel sub by blast
qed

subsection \<open>The command wrapper\<close>

text \<open>
  C9. Whatever a command's task throws, the registered handler returns \<^verbatim>\<open>undefined\<close>
  and does not throw. A silent user cancellation adds one entry to the log and nothing
  else, an interactive one adds one warning message and nothing else, and neither adds
  a report through the error path; every other exception adds exactly one report through
  the error path (shown, logged and sent to telemetry). The command-usage record that
  the \<^verbatim>\<open>finally\<close> block sends for every run of every command follows in all three
  cases.
\<close>

theorem registerCommandWithErrorHandling_reports:
  "registerCommandWithErrorHandling env commandId (tr, Inl (UserCancellationException m True)) =
     (tr @ [Log (errorMessage_fullMessage env (UserCancellationException m True) commandId)] @
      sendCommandUsage env commandId (Some (UserCancellationException m True)), Inr None)
   \<and> registerCommandWithErrorHandling env commandId (tr, Inl (UserCancellationException m False)) =
     (tr @ [ShowAndLogWarningMessage
              (errorMessage_fullMessage env (UserCancellationException m False) commandId)] @
      sendCommandUsage env commandId (Some (UserCancellationException m False)), Inr None)
   \<and> registerCommandWithErrorHandling env commandId (tr, Inl (Error m)) =
     (tr @ [ShowAndLogExceptionWithTelemetry (errorMessage_fullMessage env (Error m) commandId)
              (if getErrorStack env (Error m) \<noteq> []
               then errorMessage_fullMessage env (Error m) commandId @ [CHR 0x0A] @
                    getErrorStack env (Error m)
               else errorMessage_fullMessage env (Error m) commandId)
              commandId] @
      sendCommandUsage env commandId (Some (Error m)), Inr None)
   \<and> filter isErrorReport
         (fst (registerCommandWithErrorHandling env commandId
                 (tr, Inl (UserCancellationException m silent))))
       = filter isErrorReport tr
   \<and> snd (registerCommandWithErrorHandling env commandId (tr, Inl e)) = Inr None"
  by (cases e) (simp_all add: registerCommandWithErrorHandling_def Let_def sendCommandUsage_def)

lemma sampleCommandEnv_message:
  "m \<noteq> [] \<Longrightarrow>
   errorMessage_fullMessage sampleCommandEnv (UserCancellationException m silent) commandId
   = m @ '' ('' @ commandId @ '')''"
  by (simp add: errorMessage_fullMessage_def sampleCommandEnv_def)

lemma sampleCommandEnv_usage:
  "sendCommandUsage sampleCommandEnv commandId error = [SendCommandUsage commandId 250 error]"
  by (simp add: sendCommandUsage_def sampleCommandEnv_def)

theorem registerCommandWithErrorHandling_reports_witness:
  "registerCommandWithErrorHandling sampleCommandEnv ''codeQL.exportVariantAnalysisResults''
     ([Progress 2 0 ''Determining export format''],
      Inl (UserCancellationException ''No export format selected'' True) :: exn + unit) =
     ([Progress 2 0 ''Determining export format'',
       Log ''No export format selected (codeQL.exportVariantAnalysisResults)'',
       SendCommandUsage ''codeQL.exportVariantAnalysisResults'' 250
         (Some (UserCancellationException ''No export format selected'' True))],
      Inr None)
   \<and> registerCommandWithErrorHandling sampleCommandEnv ''codeQL.exportVariantAnalysisResults''
     ([], Inl (UserCancellationException ''Cancelled'' False) :: exn + unit) =
     ([ShowAndLogWarningMessage ''Cancelled (codeQL.exportVariantAnalysisResults)'',
       SendCommandUsage ''codeQL.exportVariantAnalysisResults'' 250
         (Some (UserCancellationException ''Cancelled'' False))],
      Inr None)"
proof -
  have silent: "registerCommandWithErrorHandling sampleCommandEnv
      ''codeQL.exportVariantAnalysisResults''
      ([Progress 2 0 ''Determining export format''],
       Inl (UserCancellationException ''No export format selected'' True) :: exn + unit) =
     ([Progress 2 0 ''Determining export format''] @
      [Log (errorMessage_fullMessage sampleCommandEnv
              (UserCancellationException ''No export format selected'' True)
              ''codeQL.exportVariantAnalysisResults'')] @
      sendCommandUsage sampleCommandEnv ''codeQL.exportVariantAnalysisResults''
        (Some (UserCancellationException ''No export format selected'' True)), Inr None)"
    using registerCommandWithErrorHandling_reports
          [where env = sampleCommandEnv and commandId = "''codeQL.exportVariantAnalysisResults''"
             and tr = "[Progress 2 0 ''Determining export format'']"
             and m = "''No export format selected''" and e = "Error []" and silent = True]
    by blast
  have interactive: "registerCommandWithErrorHandling sampleCommandEnv
      ''codeQL.exportVariantAnalysisResults''
      ([], Inl (UserCancellationException ''Cancelled'' False) :: exn + unit) =
     ([] @
      [ShowAndLogWarningMessage (errorMessage_fullMessage sampleCommandEnv
              (UserCancellationException ''Cancelled'' False)
              ''codeQL.exportVariantAnalysisResults'')] @
      sendCommandUsage sampleCommandEnv ''codeQL.exportVariantAnalysisResults''
        (Some (UserCancellationException ''Cancelled'' False)), Inr None)"
    using registerCommandWithErrorHandling_reports
          [where env = sampleCommandEnv and commandId = "''codeQL.exportVariantAnalysisResults''"
             and tr = "[]" and m = "''Cancelled''" and e = "Error []" and silent = False]
    by blast
  show ?thesis
    by (simp add: silent interactive sampleCommandEnv_message sampleCommandEnv_usage)
qed

subsection \<open>Leaving the export without a format\<close>

text \<open>
  C10. Let the job be found and the export not be cancelled before the picker is shown.
  If the user dismisses the picker, \<^verbatim>\<open>determineExportFormat\<close> throws a user cancellation
  whose silent flag is true, the export rejects with it after the two log and progress
  entries and the picker, and the command wrapper answers with one entry in the log and
  no warning. If \<^verbatim>\<open>determineExportFormat\<close> returns no format, the export returns
  normally after the same three effects: no result is loaded, no Markdown is generated
  and nothing is written or uploaded.
\<close>

theorem exportVariantAnalysisResults_without_format:
  assumes found: "getVariantAnalysis env variantAnalysisId = Some variantAnalysis"
    and live: "\<not> isCancellationRequested env AfterLookup"
    and shown: "shown =
       [Log (''Exporting variant analysis results for variant analysis with id '' @
             numberToString (va_id variantAnalysis)),
        Progress 2 0 ''Determining export format'',
        ShowQuickPick [GistOption, LocalMarkdownOption] ''Select export format'']"
    and cancelled: "cancelled = UserCancellationException ''No export format selected'' True"
  shows "(showQuickPick env = None \<longrightarrow>
            snd (determineExportFormat env) = Inl cancelled
            \<and> exportVariantAnalysisResults env variantAnalysisId filterSort = (shown, Inl cancelled)
            \<and> registerCommandWithErrorHandling cenv commandId
                 (exportVariantAnalysisResults env variantAnalysisId filterSort) =
               (shown @ [Log (errorMessage_fullMessage cenv cancelled commandId)] @
                sendCommandUsage cenv commandId (Some cancelled), Inr None))
       \<and> (snd (determineExportFormat env) = Inr None \<longrightarrow>
            exportVariantAnalysisResults env variantAnalysisId filterSort = (shown, Inr ()))"
proof -
  have cc: "checkCancelled (Some (isCancellationRequested env)) AfterLookup = ([], Inr ())"
    using live by (simp add: checkCancelled_def io_return_def)
  have picker: "fst (determineExportFormat env) =
                 [ShowQuickPick [GistOption, LocalMarkdownOption] ''Select export format'']"
    by (simp add: determineExportFormat_def io_bind_def io_emit_def io_throw_def io_return_def
        split: option.splits)
  have run: "exportVariantAnalysisResults env variantAnalysisId filterSort =
               (shown, case snd (determineExportFormat env) of Inl e \<Rightarrow> Inl e | Inr None \<Rightarrow> Inr ())"
    if "snd (determineExportFormat env) = Inl e' \<or> snd (determineExportFormat env) = Inr None"
    for e'
    using that picker
    by (cases "determineExportFormat env")
      (auto simp: exportVariantAnalysisResults_def found cc io_bind_def io_emit_def io_return_def
        shown MAX_VARIANT_ANALYSIS_EXPORT_PROGRESS_STEPS_def)
  have dismissed: "snd (determineExportFormat env) = Inl cancelled" if "showQuickPick env = None"
    using that
    by (simp add: determineExportFormat_def io_bind_def io_emit_def io_throw_def cancelled)
  have wrapped: "registerCommandWithErrorHandling cenv commandId (shown, Inl cancelled) =
               (shown @ [Log (errorMessage_fullMessage cenv cancelled commandId)] @
                sendCommandUsage cenv commandId (Some cancelled), Inr None)"
    by (simp add: registerCommandWithErrorHandling_def Let_def cancelled)
  show ?thesis
    using run [of cancelled] dismissed wrapped by auto
qed

theorem exportVariantAnalysisResults_without_format_witness:
  "showQuickPick (sampleEnv None) = None
   \<and> exportVariantAnalysisResults (sampleEnv None) 7 None =
       ([Log ''Exporting variant analysis results for variant analysis with id 7'',
         Progress 2 0 ''Determining export format'',
         ShowQuickPick [GistOption, LocalMarkdownOption] ''Select export format''],
        Inl (UserCancellationException ''No export format selected'' True))
   \<and> registerCommandWithErrorHandling sampleCommandEnv ''codeQL.exportVariantAnalysisResults''
        (exportVariantAnalysisResults (sampleEnv None) 7 None) =
       ([Log ''Exporting variant analysis results for variant analysis with id 7'',
         Progress 2 0 ''Determining export format'',
         ShowQuickPick [GistOption, LocalMarkdownOption] ''Select export format'',
         Log ''No export format selected (codeQL.exportVariantAnalysisResults)'',
         SendCommandUsage ''codeQL.exportVariantAnalysisResults'' 250
           (Some (UserCancellationException ''No export format selected'' True))],
        Inr None)
   \<and> snd (determineExportFormat (sampleEnv (Some (OtherItem ''Other'')))) = Inr None
   \<and> exportVariantAnalysisResults (sampleEnv (Some (OtherItem ''Other''))) 7 None =
       ([Log ''Exporting variant analysis results for variant analysis with id 7'',
         Progress 2 0 ''Determining export format'',
         ShowQuickPick [GistOption, LocalMarkdownOption] ''Select export format''],
        Inr ())"
proof -
  have found: "getVariantAnalysis (sampleEnv pick) 7 = Some sampleVariantAnalysis" for pick
    by (simp add: sampleEnv_def)
  have live: "\<not> isCancellationRequested (sampleEnv pick) AfterLookup" for pick
    by (simp add: sampleEnv_def)
  have none: "showQuickPick (sampleEnv None) = None"
    by (simp add: sampleEnv_def)
  have other: "snd (determineExportFormat (sampleEnv (Some (OtherItem ''Other'')))) = Inr None"
    by (simp add: determineExportFormat_def sampleEnv_def label_def io_bind_def io_emit_def
        io_return_def)
  have seven: "numberToString (va_id sampleVariantAnalysis) = ''7''"
    by (simp add: numberToString.simps [of 7] digitChar_def digits10_def
        sampleVariantAnalysis_def)
  note dismissed = exportVariantAnalysisResults_without_format
            [OF found live refl refl, of None None sampleCommandEnv
               "''codeQL.exportVariantAnalysisResults''"]
  note unresolved = exportVariantAnalysisResults_without_format
            [OF found live refl refl, of "Some (OtherItem ''Other'')" None sampleCommandEnv
               "''codeQL.exportVariantAnalysisResults''"]
  from dismissed none
  have "exportVariantAnalysisResults (sampleEnv None) 7 None =
       ([Log (''Exporting variant analysis results for variant analysis with id '' @
              numberToString (va_id sampleVariantAnalysis)),
         Progress 2 0 ''Determining export format'',
         ShowQuickPick [GistOption, LocalMarkdownOption] ''Select export format''],
        Inl (UserCancellationException ''No export format selected'' True))"
    by blast
  then
  have rejected: "exportVariantAnalysisResults (sampleEnv None) 7 None =
       ([Log ''Exporting variant analysis results for variant analysis with id 7'',
         Progress 2 0 ''Determining export format'',
         ShowQuickPick [GistOption, LocalMarkdownOption] ''Select export format''],
        Inl (UserCancellationException ''No export format selected'' True))"
    by (simp add: seven)
  from dismissed none
  have "registerCommandWithErrorHandling sampleCommandEnv
        ''codeQL.exportVariantAnalysisResults''
        (exportVariantAnalysisResults (sampleEnv None) 7 None) =
       ([Log (''Exporting variant analysis results for variant analysis with id '' @
              numberToString (va_id sampleVariantAnalysis)),
         Progress 2 0 ''Determining export format'',
         ShowQuickPick [GistOption, LocalMarkdownOption] ''Select export format''] @
        [Log (errorMessage_fullMessage sampleCommandEnv
                (UserCancellationException ''No export format selected'' True)
                ''codeQL.exportVariantAnalysisResults'')] @
        sendCommandUsage sampleCommandEnv ''codeQL.exportVariantAnalysisResults''
          (Some (UserCancellationException ''No export format selected'' True)), Inr None)"
    by blast
  then
  have wrapped: "registerCommandWithErrorHandling sampleCommandEnv
        ''codeQL.exportVariantAnalysisResults''
        (exportVariantAnalysisResults (sampleEnv None) 7 None) =
       ([Log ''Exporting variant analysis results for variant analysis with id 7'',
         Progress 2 0 ''Determining export format'',
         ShowQuickPick [GistOption, LocalMarkdownOption] ''Select export format'',
         Log ''No export format selected (codeQL.exportVariantAnalysisResults)'',
         SendCommandUsage ''codeQL.exportVariantAnalysisResults'' 250
           (Some (UserCancellationException ''No export format selected'' True))],
        Inr None)"
    by (simp add: seven sampleCommandEnv_message sampleCommandEnv_usage)
  from unresolved other
  have "exportVariantAnalysisResults (sampleEnv (Some (OtherItem ''Other''))) 7 None =
       ([Log (''Exporting variant analysis results for variant analysis with id '' @
              numberToString (va_id sampleVariantAnalysis)),
         Progress 2 0 ''Determining export format'',
         ShowQuickPick [GistOption, LocalMarkdownOption] ''Select export format''],
        Inr ())"
    by blast
  then
  have returned: "exportVariantAnalysisResults (sampleEnv (Some (OtherItem ''Other''))) 7 None =
       ([Log ''Exporting variant analysis results for variant analysis with id 7'',
         Progress 2 0 ''Determining export format'',
         ShowQuickPick [GistOption, LocalMarkdownOption] ''Select export format''],
        Inr ())"
    by (simp add: seven)
  from none rejected wrapped other returned show ?thesis
    by (intro conjI)
qed

subsection \<open>Loading the results lazily\<close>

text \<open>
  C8. Let every load of a selected repository succeed, and let the generator of the
  results, created for the filtered and sorted list \<open>repositories\<close>, be handed to any
  Markdown generator \<open>renderer\<close>, which awaits \<^verbatim>\<open>next\<close> \<open>n\<close> times.
  \<^item> A call of \<^verbatim>\<open>next\<close> after \<open>i\<close> earlier ones, \<open>i\<close> less than the number of
    repositories, calls \<^verbatim>\<open>loadResults\<close> once, for the repository at place \<open>i\<close> of the
    list, with the job id, the repository's full name and \<^verbatim>\<open>skipCacheStore\<close> set, and
    yields the pair of that repository and its result; the generator is then suspended,
    and the load of the next repository belongs to the next call. Once the repositories
    are used up, a call loads nothing and reports the end.
  \<^item> The loads made while the Markdown generator is at work are those of the first \<open>n\<close>
    repositories, once each and in the order of the list, and no others; when it iterates
    to the end they are those of all the repositories, once each.
  \<^item> The collection of the pairs is built nowhere. A call hands over the one pair it has
    loaded; between two calls the generator keeps the repositories not yet visited and
    none of the results; and \<^verbatim>\<open>exportVariantAnalysisAnalysisResults\<close>, which passes the
    generator on untouched, loads what the Markdown generator has asked for and nothing
    else.
\<close>

theorem getAnalysesResults_one_at_a_time:
  assumes loads: "\<forall>repo \<in> set repositories.
                    loadResults env (va_id variantAnalysis) (fullName (repository repo)) True
                    = Inr (result repo)"
    and generator: "analysesResults =
                      getAnalysesResults env (Some variantAnalysis) (Some repositories)"
    and asked: "n = requests (fst analysesResults) renderer (snd analysesResults)"
  shows "(\<forall>i < length repositories.
            fst analysesResults (stateAfter repositories i) =
              ([loadOf variantAnalysis (repositories ! i)],
               Inr (IterValue (repositories ! i, result (repositories ! i))),
               stateAfter repositories (Suc i)))
       \<and> fst analysesResults (stateAfter repositories (length repositories)) =
           ([], Inr IterDone, GenCompleted)
       \<and> snd analysesResults = stateAfter repositories 0
       \<and> fst (consume (fst analysesResults) renderer (snd analysesResults)) =
           map (loadOf variantAnalysis) (take n repositories)
       \<and> snd (snd (consume (fst analysesResults) renderer (snd analysesResults))) =
           stateAfter repositories n
       \<and> (length repositories < n \<longrightarrow>
            fst (awaitConsumer renderer analysesResults) =
              map (loadOf variantAnalysis) repositories)
       \<and> (\<forall>m. 0 < m \<and> m \<le> length repositories \<longrightarrow>
              stateAfter repositories m = GenSuspended (drop m repositories))
       \<and> (renderer = generateVariantAnalysisMarkdown env variantAnalysis expected exportFormat
            \<and> \<not> token BeforeGenerate \<longrightarrow>
            filter isLoad
              (fst (exportVariantAnalysisAnalysisResults env exportedResultsPath variantAnalysis
                      analysesResults expected exportFormat token)) =
              map (loadOf variantAnalysis) (take n repositories))"
proof -
  have calls: "\<forall>i < length repositories.
            fst analysesResults (stateAfter repositories i) =
              ([loadOf variantAnalysis (repositories ! i)],
               Inr (IterValue (repositories ! i, result (repositories ! i))),
               stateAfter repositories (Suc i))"
    using loads getAnalysesResults_next_at [of env variantAnalysis repositories]
    by (simp add: generator getAnalysesResults_def)
  have ended: "fst analysesResults (stateAfter repositories (length repositories)) =
           ([], Inr IterDone, GenCompleted)"
    using getAnalysesResults_next_end [of repositories "length repositories" env variantAnalysis]
    by (simp add: generator getAnalysesResults_def)
  have start: "snd analysesResults = stateAfter repositories 0"
    by (simp add: generator getAnalysesResults_def stateAfter_def)
  have nxt: "fst analysesResults =
               getAnalysesResults_next env (Some variantAnalysis) (Some repositories)"
    by (simp add: generator getAnalysesResults_def)
  note run = consume_from [OF loads nxt, of renderer 0, folded start, simplified]
  from run asked
  have made: "fst (consume (fst analysesResults) renderer (snd analysesResults)) =
           map (loadOf variantAnalysis) (take n repositories)"
    by simp
  from run asked
  have left: "snd (snd (consume (fst analysesResults) renderer (snd analysesResults))) =
           stateAfter repositories n"
    by simp
  have all: "length repositories < n \<longrightarrow>
            fst (awaitConsumer renderer analysesResults) =
              map (loadOf variantAnalysis) repositories"
  proof -
    have "fst (awaitConsumer renderer analysesResults) =
            fst (consume (fst analysesResults) renderer (snd analysesResults))"
      by (cases "consume (fst analysesResults) renderer (snd analysesResults)")
        (simp add: awaitConsumer_def)
    with made show ?thesis by simp
  qed
  have kept: "\<forall>m. 0 < m \<and> m \<le> length repositories \<longrightarrow>
              stateAfter repositories m = GenSuspended (drop m repositories)"
    by (simp add: stateAfter_def)
  have await: "fst (awaitConsumer renderer analysesResults) =
            map (loadOf variantAnalysis) (take n repositories)"
    using made
    by (cases "consume (fst analysesResults) renderer (snd analysesResults)")
      (simp add: awaitConsumer_def)
  have export: "renderer = generateVariantAnalysisMarkdown env variantAnalysis expected exportFormat
            \<and> \<not> token BeforeGenerate \<longrightarrow>
            filter isLoad
              (fst (exportVariantAnalysisAnalysisResults env exportedResultsPath variantAnalysis
                      analysesResults expected exportFormat token)) =
              map (loadOf variantAnalysis) (take n repositories)"
    using await
    by (auto simp: loads_exportVariantAnalysisAnalysisResults loads_map_loadOf)
  from calls ended start made left all kept export show ?thesis
    by (intro conjI)
qed

lemma sample_loads:
  "\<forall>repo \<in> set [sampleRepository 1 ''octo/alpha'' (Some 3),
                     sampleRepository 4 ''octo/delta'' (Some 2)].
     loadResults (sampleEnv pick) (va_id sampleVariantAnalysis) (fullName (repository repo)) True
     = Inr [''alert in '' @ fullName (repository repo)]"
  by (simp add: sampleEnv_def)

lemma hasty_loads:
  "\<forall>repo \<in> set [sampleRepository 1 ''octo/alpha'' (Some 3),
                     sampleRepository 4 ''octo/delta'' (Some 2)].
     loadResults hastyEnv (va_id sampleVariantAnalysis) (fullName (repository repo)) True
     = Inr [''alert in '' @ fullName (repository repo)]"
  by (simp add: hastyEnv_def sampleEnv_def)

lemma sampleMarkdown_two:
  "sampleMarkdown 2 files summaries = sampleMarkdown (Suc (Suc 0)) files summaries"
  by (simp add: numeral_2_eq_2)

lemma sample_requests:
  "requests (getAnalysesResults_next (sampleEnv pick) (Some sampleVariantAnalysis)
       (Some [sampleRepository 1 ''octo/alpha'' (Some 3),
              sampleRepository 4 ''octo/delta'' (Some 2)]))
     (sampleMarkdown 2 [] []) GenStart = 3"
  by (simp add: sampleMarkdown_two getAnalysesResults_loop_def sampleEnv_def)

lemma hasty_requests:
  "requests (getAnalysesResults_next hastyEnv (Some sampleVariantAnalysis)
       (Some [sampleRepository 1 ''octo/alpha'' (Some 3),
              sampleRepository 4 ''octo/delta'' (Some 2)]))
     firstOnly GenStart = 1"
  by (simp add: getAnalysesResults_loop_def hastyEnv_def sampleEnv_def firstOnly_def)

theorem getAnalysesResults_one_at_a_time_witness:
  "fst (consume
          (fst (getAnalysesResults hastyEnv (Some sampleVariantAnalysis)
                  (Some [sampleRepository 1 ''octo/alpha'' (Some 3),
                         sampleRepository 4 ''octo/delta'' (Some 2)])))
          firstOnly GenStart) = [LoadResults 7 ''octo/alpha'' True]
   \<and> snd (snd (consume
          (fst (getAnalysesResults hastyEnv (Some sampleVariantAnalysis)
                  (Some [sampleRepository 1 ''octo/alpha'' (Some 3),
                         sampleRepository 4 ''octo/delta'' (Some 2)])))
          firstOnly GenStart)) = GenSuspended [sampleRepository 4 ''octo/delta'' (Some 2)]
   \<and> filter isLoad
         (fst (exportVariantAnalysisAnalysisResults hastyEnv ''/out'' sampleVariantAnalysis
                 (getAnalysesResults hastyEnv (Some sampleVariantAnalysis)
                    (Some [sampleRepository 1 ''octo/alpha'' (Some 3),
                           sampleRepository 4 ''octo/delta'' (Some 2)]))
                 2 Local (\<lambda>cp. False))) = [LoadResults 7 ''octo/alpha'' True]
   \<and> fst (awaitConsumer (sampleMarkdown 2 [] [])
          (getAnalysesResults (sampleEnv None) (Some sampleVariantAnalysis)
             (Some [sampleRepository 1 ''octo/alpha'' (Some 3),
                    sampleRepository 4 ''octo/delta'' (Some 2)]))) =
       [LoadResults 7 ''octo/alpha'' True, LoadResults 7 ''octo/delta'' True]"
proof -
  define rs where "rs = [sampleRepository 1 ''octo/alpha'' (Some 3),
                         sampleRepository 4 ''octo/delta'' (Some 2)]"
  define H where "H = getAnalysesResults hastyEnv (Some sampleVariantAnalysis) (Some rs)"
  define G where "G = getAnalysesResults (sampleEnv None) (Some sampleVariantAnalysis) (Some rs)"
  have start: "snd H = GenStart"
    by (simp add: H_def getAnalysesResults_def)
  have one: "(1::nat) = requests (fst H) firstOnly (snd H)"
    using hasty_requests by (simp add: H_def getAnalysesResults_def rs_def)
  have three: "(3::nat) = requests (fst G) (sampleMarkdown 2 [] []) (snd G)"
    using sample_requests [of None] by (simp add: G_def getAnalysesResults_def rs_def)
  have hasty: "firstOnly = generateVariantAnalysisMarkdown hastyEnv sampleVariantAnalysis 2 Local
               \<and> \<not> (\<lambda>cp. False) BeforeGenerate"
    by (simp add: hastyEnv_def)
  note partly = getAnalysesResults_one_at_a_time
      [OF hasty_loads [folded rs_def] H_def one,
       where expected = 2 and exportFormat = Local and token = "\<lambda>cp. False"
         and exportedResultsPath = "''/out''"]
  note fully = getAnalysesResults_one_at_a_time
      [OF sample_loads [of None, folded rs_def] G_def three]
  from partly have "fst (consume (fst H) firstOnly (snd H)) =
                      map (loadOf sampleVariantAnalysis) (take 1 rs)"
    by blast
  then have first: "fst (consume (fst H) firstOnly GenStart) = [LoadResults 7 ''octo/alpha'' True]"
    by (simp add: start rs_def loadOf_def sampleVariantAnalysis_def sampleRepository_def)
  from partly have "snd (snd (consume (fst H) firstOnly (snd H))) = stateAfter rs 1"
    by blast
  then have rest: "snd (snd (consume (fst H) firstOnly GenStart)) =
                     GenSuspended [sampleRepository 4 ''octo/delta'' (Some 2)]"
    by (simp add: start rs_def stateAfter_def)
  from partly hasty
  have "filter isLoad
          (fst (exportVariantAnalysisAnalysisResults hastyEnv ''/out'' sampleVariantAnalysis
                  H 2 Local (\<lambda>cp. False))) =
        map (loadOf sampleVariantAnalysis) (take 1 rs)"
    by blast
  then have export: "filter isLoad
          (fst (exportVariantAnalysisAnalysisResults hastyEnv ''/out'' sampleVariantAnalysis
                  H 2 Local (\<lambda>cp. False))) = [LoadResults 7 ''octo/alpha'' True]"
    by (simp add: rs_def loadOf_def sampleVariantAnalysis_def sampleRepository_def)
  from fully have "length rs < 3 \<longrightarrow>
                     fst (awaitConsumer (sampleMarkdown 2 [] []) G) =
                       map (loadOf sampleVariantAnalysis) rs"
    by blast
  then have all: "fst (awaitConsumer (sampleMarkdown 2 [] []) G) =
                    [LoadResults 7 ''octo/alpha'' True, LoadResults 7 ''octo/delta'' True]"
    by (simp add: rs_def loadOf_def sampleVariantAnalysis_def sampleRepository_def)
  from first rest export all show ?thesis
    unfolding G_def H_def rs_def by (intro conjI)
qed

subsection \<open>The local export, end to end\<close>

lemma ordinarySegment_md:
  assumes "CHR ''/'' \<notin> set name"
  shows "ordinarySegment (name @ ''.md'')"
proof -
  have "length (name @ ''.md'') = length name + 3" by simp
  then have "name @ ''.md'' \<noteq> []" "name @ ''.md'' \<noteq> ''.''" "name @ ''.md'' \<noteq> ''..''"
    by fastforce+
  with assms show ?thesis by (simp add: ordinarySegment_def)
qed

lemma ordinarySegment_results:
  assumes "utcFullYear d \<le> 9999"
  shows "ordinarySegment (''results_'' @ formattedDate d)"
proof -
  have "CHR ''/'' \<notin> set (compactDate d)" "CHR ''/'' \<notin> set (compactTime d)"
    using compactDate_digits [of d] compactTime_digits [of d]
    by (auto simp: list_all_iff dest: isDigit_not_punct)
  then show ?thesis
    by (simp add: ordinarySegment_def formattedDate_compact [OF assms])
qed

lemma exportedResultsDirectory_suffix:
  assumes "utcFullYear d \<le> 9999"
  shows "\<exists>prefix. exportedResultsDirectory exportDirectory d =
                    prefix @ ''exported-results/results_'' @ compactDate d @ ''T'' @
                    compactTime d @ ''Z''
                  \<and> (prefix = [] \<or> last prefix = CHR ''/'')"
proof -
  have ord: "\<forall>seg \<in> set [''exported-results'', ''results_'' @ formattedDate d].
               ordinarySegment seg"
    using ordinarySegment_results [OF assms] by (simp add: ordinarySegment_def)
  from join_ordinary_segments [OF _ ord, of exportDirectory]
  show ?thesis
    by (simp add: exportedResultsDirectory_def formattedDate_compact [OF assms])
qed

lemma writeOf_under:
  assumes "utcFullYear d \<le> 9999" and "CHR ''/'' \<notin> set (fileName markdownFile)"
  shows "writeOf (exportedResultsDirectory exportDirectory d) markdownFile =
           WriteFile (exportedResultsDirectory exportDirectory d @ ''/'' @
                      fileName markdownFile @ ''.md'')
             (joinWith [CHR 0x0A] (content markdownFile)) ''utf8''"
proof -
  have ord: "\<forall>seg \<in> set [''exported-results'', ''results_'' @ formattedDate d].
               ordinarySegment seg"
    using ordinarySegment_results [OF assms(1)] by (simp add: ordinarySegment_def)
  from join_under_joined [OF _ ord ordinarySegment_md [OF assms(2)], of exportDirectory]
  show ?thesis
    by (simp add: writeOf_def exportedResultsDirectory_def)
qed

text \<open>
  C6. Let the job be found, the token never be cancelled, the user choose ``Save as
  markdown'', the Markdown generator, handed the generator of the results, end with its
  Markdown files after the loads it has asked for, the file system succeed, and the clock
  show a year of at most four digits. Then the export writes into the directory \<open>dir\<close>, the storage location of
  the job joined with \<^verbatim>\<open>exported-results\<close> and \<^verbatim>\<open>results_<timestamp>\<close>: the path of \<open>dir\<close>
  ends in \<^verbatim>\<open>exported-results/results_\<close> followed by eight digits (the UTC date), a
  \<^verbatim>\<open>T\<close>, six digits (the UTC time) and a \<^verbatim>\<open>Z\<close>, without hyphens, colons or
  fraction of a second. The effects of the export are, in order: the log entry, the first
  progress step, the picker, the second progress step, the loads, the third progress
  step, one \<^verbatim>\<open>ensureDir\<close> of \<open>dir\<close> (which creates the directory with its parents if it
  is absent), one \<^verbatim>\<open>writeFile\<close> in \<^verbatim>\<open>utf8\<close> per rendered Markdown file, in the order
  of the files and with the file's lines joined by line feeds, and the notification that
  offers to open the result. The file of a Markdown file whose name has no slash is
  \<open>dir\<close>, a slash, the file's name and \<^verbatim>\<open>.md\<close>; so a rendered file \<^verbatim>\<open>_summary\<close> is written
  to \<^verbatim>\<open>_summary.md\<close> in \<open>dir\<close>.
\<close>

theorem exportVariantAnalysisResults_local_writes:
  assumes found: "getVariantAnalysis env variantAnalysisId = Some variantAnalysis"
    and live: "\<forall>cp. \<not> isCancellationRequested env cp"
    and pick: "showQuickPick env = Some LocalMarkdownOption"
    and rendered: "awaitConsumer
                     (generateVariantAnalysisMarkdown env variantAnalysis
                        (case repositoriesToExport env variantAnalysis filterSort
                                (getRepoStates env variantAnalysisId) of
                           None \<Rightarrow> 0 | Some rs \<Rightarrow> length rs) Local)
                     (getAnalysesResults env (Some variantAnalysis)
                        (repositoriesToExport env variantAnalysis filterSort
                           (getRepoStates env variantAnalysisId)))
                   = (loads, Inr (markdownFiles, summaries))"
    and fsok: "\<forall>eff. fsError env eff = None"
    and now: "validDate (currentDate env)"
    and dir: "dir = exportedResultsDirectory
                      (getVariantAnalysisStorageLocation env (va_id variantAnalysis))
                      (currentDate env)"
  shows "(\<exists>prefix. dir = prefix @ ''exported-results/results_'' @
                         compactDate (currentDate env) @ ''T'' @
                         compactTime (currentDate env) @ ''Z''
                  \<and> (prefix = [] \<or> last prefix = CHR ''/''))
       \<and> list_all isDigit (compactDate (currentDate env))
       \<and> length (compactDate (currentDate env)) = 8
       \<and> list_all isDigit (compactTime (currentDate env))
       \<and> length (compactTime (currentDate env)) = 6
       \<and> exportVariantAnalysisResults env variantAnalysisId filterSort =
           ([Log (''Exporting variant analysis results for variant analysis with id '' @
                  numberToString (va_id variantAnalysis)),
             Progress 2 0 ''Determining export format'',
             ShowQuickPick [GistOption, LocalMarkdownOption] ''Select export format'',
             Progress 2 1 ''Generating Markdown files''] @ loads @
            [Progress 2 2 ''Creating local Markdown files'', EnsureDir dir] @
            map (writeOf dir) markdownFiles @
            [ShowInformationMessageWithAction (exportedMessage dir) ''Open exported results''] @
            (if showInformationMessageWithAction env (exportedMessage dir) ''Open exported results''
             then [OpenTextDocument (join [dir, ''_summary.md'']),
                   ShowTextDocument (join [dir, ''_summary.md'']),
                   ExecuteCommand ''revealFileInOS'' (join [dir, ''_summary.md''])]
             else []),
            Inr ())
       \<and> (\<forall>markdownFile \<in> set markdownFiles.
             CHR ''/'' \<notin> set (fileName markdownFile) \<longrightarrow>
             writeOf dir markdownFile =
               WriteFile (dir @ ''/'' @ fileName markdownFile @ ''.md'')
                 (joinWith [CHR 0x0A] (content markdownFile)) ''utf8'')"
proof -
  from now have year: "utcFullYear (currentDate env) \<le> 9999"
    by (simp add: validDate_def)
  from now have fields: "utcFullYear (currentDate env) < 10000" "utcMonth (currentDate env) < 100"
    "utcDate (currentDate env) < 100" "utcHours (currentDate env) < 100"
    "utcMinutes (currentDate env) < 100" "utcSeconds (currentDate env) < 100"
    by (simp_all add: validDate_def)
  have len_date: "length (compactDate (currentDate env)) = 8"
    using fields
    by (simp add: compactDate_def padStart_length numberToString_length_2
        numberToString_length_4)
  have len_time: "length (compactTime (currentDate env)) = 6"
    using fields by (simp add: compactTime_def padStart_length numberToString_length_2)
  note suffix = exportedResultsDirectory_suffix [OF year,
      of "getVariantAnalysisStorageLocation env (va_id variantAnalysis)", folded dir]
  note run = exportVariantAnalysisResults_local
      [OF found live pick rendered fsok dir]
  have under: "\<forall>markdownFile \<in> set markdownFiles.
             CHR ''/'' \<notin> set (fileName markdownFile) \<longrightarrow>
             writeOf dir markdownFile =
               WriteFile (dir @ ''/'' @ fileName markdownFile @ ''.md'')
                 (joinWith [CHR 0x0A] (content markdownFile)) ''utf8''"
    using writeOf_under [OF year] by (simp add: dir)
  from suffix compactDate_digits len_date compactTime_digits len_time run under
  show ?thesis by (intro conjI)
qed

lemma sample_directory:
  "exportedResultsDirectory ''/storage/variant-analyses/7'' sampleDate =
     ''/storage/variant-analyses/7/exported-results/results_20221115T123456Z''"
  by code_simp

lemma sample_selection:
  "repositoriesToExport (sampleEnv pick) sampleVariantAnalysis None sampleRepoStates =
     Some [sampleRepository 1 ''octo/alpha'' (Some 3), sampleRepository 4 ''octo/delta'' (Some 2)]"
  by (simp add: repositoriesToExport_def sampleEnv_def sampleVariantAnalysis_def
      selectedForExport_def sampleRepoStates_def sampleRepository_def)

theorem exportVariantAnalysisResults_local_writes_witness:
  "validDate (currentDate (sampleEnv (Some LocalMarkdownOption)))
   \<and> exportVariantAnalysisResults (sampleEnv (Some LocalMarkdownOption)) 7 None =
     ([Log ''Exporting variant analysis results for variant analysis with id 7'',
       Progress 2 0 ''Determining export format'',
       ShowQuickPick [GistOption, LocalMarkdownOption] ''Select export format'',
       Progress 2 1 ''Generating Markdown files'',
       LoadResults 7 ''octo/alpha'' True, LoadResults 7 ''octo/delta'' True,
       Progress 2 2 ''Creating local Markdown files'',
       EnsureDir ''/storage/variant-analyses/7/exported-results/results_20221115T123456Z'',
       WriteFile
         ''/storage/variant-analyses/7/exported-results/results_20221115T123456Z/_summary.md''
         ''# Results'' ''utf8'',
       WriteFile
         ''/storage/variant-analyses/7/exported-results/results_20221115T123456Z/result-1.md''
         ''alert in octo/alpha'' ''utf8'',
       WriteFile
         ''/storage/variant-analyses/7/exported-results/results_20221115T123456Z/result-4.md''
         ''alert in octo/delta'' ''utf8'',
       ShowInformationMessageWithAction
         (exportedMessage
            ''/storage/variant-analyses/7/exported-results/results_20221115T123456Z'')
         ''Open exported results''],
      Inr ())"
proof -
  define env where "env = sampleEnv (Some LocalMarkdownOption)"
  define dir where "dir = ''/storage/variant-analyses/7/exported-results/results_20221115T123456Z''"
  define files where "files =
     [\<lparr>fileName = ''_summary'', content = [''# Results'']\<rparr>,
      \<lparr>fileName = ''result-1'', content = [''alert in octo/alpha'']\<rparr>,
      \<lparr>fileName = ''result-4'', content = [''alert in octo/delta'']\<rparr>]"
  have found: "getVariantAnalysis env 7 = Some sampleVariantAnalysis"
    by (simp add: env_def sampleEnv_def)
  have live: "\<forall>cp. \<not> isCancellationRequested env cp"
    by (simp add: env_def sampleEnv_def)
  have pick: "showQuickPick env = Some LocalMarkdownOption"
    by (simp add: env_def sampleEnv_def)
  have states: "getRepoStates env 7 = sampleRepoStates"
    by (simp add: env_def sampleEnv_def)
  have sel: "repositoriesToExport env sampleVariantAnalysis None (getRepoStates env 7) =
     Some [sampleRepository 1 ''octo/alpha'' (Some 3), sampleRepository 4 ''octo/delta'' (Some 2)]"
    by (simp add: states) (simp add: env_def sample_selection)
  have one: "numberToString (Suc 0) = ''1''" and four: "numberToString 4 = ''4''"
    and seven: "numberToString 7 = ''7''"
    by (simp_all add: numberToString.simps [of "Suc 0"] numberToString.simps [of 4]
        numberToString.simps [of 7] digitChar_def digits10_def)
  have rendered: "awaitConsumer
                    (generateVariantAnalysisMarkdown env sampleVariantAnalysis
                       (case repositoriesToExport env sampleVariantAnalysis None
                               (getRepoStates env 7) of
                          None \<Rightarrow> 0 | Some rs \<Rightarrow> length rs) Local)
                    (getAnalysesResults env (Some sampleVariantAnalysis)
                       (repositoriesToExport env sampleVariantAnalysis None
                          (getRepoStates env 7)))
                  = ([LoadResults 7 ''octo/alpha'' True, LoadResults 7 ''octo/delta'' True],
                     Inr (files,
                          [\<lparr>summary_fileName = ''result-1'', summary_resultCount = Some 3\<rparr>,
                           \<lparr>summary_fileName = ''result-4'', summary_resultCount = Some 2\<rparr>]))"
    unfolding sel
    by (simp add: env_def sampleEnv_def awaitConsumer_def getAnalysesResults_def
        sampleMarkdown_two getAnalysesResults_loop_def sampleFile_def sampleSummary_def
        sampleRepository_def sampleVariantAnalysis_def one four files_def)
  have fsok: "\<forall>eff. fsError env eff = None"
    by (simp add: env_def sampleEnv_def)
  have now: "validDate (currentDate env)"
    by (simp add: env_def sampleEnv_def sampleDate_def validDate_def)
  have dir: "dir = exportedResultsDirectory
                      (getVariantAnalysisStorageLocation env (va_id sampleVariantAnalysis))
                      (currentDate env)"
    by (simp add: env_def sampleEnv_def sample_directory dir_def)
  have quiet: "\<not> showInformationMessageWithAction env (exportedMessage dir)
                   ''Open exported results''"
    by (simp add: env_def sampleEnv_def)
  note written = exportVariantAnalysisResults_local_writes
      [OF found live pick rendered fsok now dir]
  have noslash: "\<forall>markdownFile \<in> set files. CHR ''/'' \<notin> set (fileName markdownFile)"
    by (simp add: files_def)
  from written noslash have paths: "map (writeOf dir) files =
      map (\<lambda>markdownFile. WriteFile (dir @ ''/'' @ fileName markdownFile @ ''.md'')
                 (joinWith [CHR 0x0A] (content markdownFile)) ''utf8'') files"
    by simp
  from written quiet
  have "exportVariantAnalysisResults env 7 None =
           ([Log (''Exporting variant analysis results for variant analysis with id '' @
                  numberToString (va_id sampleVariantAnalysis)),
             Progress 2 0 ''Determining export format'',
             ShowQuickPick [GistOption, LocalMarkdownOption] ''Select export format'',
             Progress 2 1 ''Generating Markdown files''] @
            [LoadResults 7 ''octo/alpha'' True, LoadResults 7 ''octo/delta'' True] @
            [Progress 2 2 ''Creating local Markdown files'', EnsureDir dir] @
            map (writeOf dir) files @
            [ShowInformationMessageWithAction (exportedMessage dir) ''Open exported results''],
            Inr ())"
    by simp
  then have "exportVariantAnalysisResults env 7 None =
     ([Log ''Exporting variant analysis results for variant analysis with id 7'',
       Progress 2 0 ''Determining export format'',
       ShowQuickPick [GistOption, LocalMarkdownOption] ''Select export format'',
       Progress 2 1 ''Generating Markdown files'',
       LoadResults 7 ''octo/alpha'' True, LoadResults 7 ''octo/delta'' True,
       Progress 2 2 ''Creating local Markdown files'',
       EnsureDir dir,
       WriteFile (dir @ ''/_summary.md'') ''# Results'' ''utf8'',
       WriteFile (dir @ ''/result-1.md'') ''alert in octo/alpha'' ''utf8'',
       WriteFile (dir @ ''/result-4.md'') ''alert in octo/delta'' ''utf8'',
       ShowInformationMessageWithAction (exportedMessage dir) ''Open exported results''],
      Inr ())"
    unfolding paths by (simp add: files_def seven sampleVariantAnalysis_def)
  with now show ?thesis
    unfolding env_def dir_def by simp
qed

subsection \<open>The monitor\<close>

lemma downloadTriggers_append:
  "downloadTriggers (xs @ ys) = downloadTriggers xs @ downloadTriggers ys"
  by (induction xs rule: downloadTriggers.induct) simp_all

lemma polls_append: "polls (xs @ ys) = polls xs @ polls ys"
  by (induction xs rule: polls.induct) simp_all

lemma changeEvents_append: "changeEvents (xs @ ys) = changeEvents xs @ changeEvents ys"
  by (induction xs rule: changeEvents.induct) simp_all

lemma downloadTriggers_map:
  "downloadTriggers (map (\<lambda>r. DownloadTrigger (f r) job) rs) = map (\<lambda>r. (f r, job)) rs"
  by (induction rs) simp_all

lemma polls_map_trigger: "polls (map (\<lambda>r. DownloadTrigger (f r) job) rs) = []"
  by (induction rs) simp_all

lemma changeEvents_map_trigger: "changeEvents (map (\<lambda>r. DownloadTrigger (f r) job) rs) = []"
  by (induction rs) simp_all


text \<open>One pass of the loop on a snapshot that is diffed.\<close>

lemma monitor_loop_pass:
  assumes "attemptCount \<le> maxAttemptCount env" and "\<not> shouldCancelMonitor env attemptCount"
    and "statusFetch env attemptCount = Inr snapshot" and "api_status snapshot \<noteq> ApiFailed"
  shows "monitor_loop env attemptCount job reportedS reportedF =
     (let effects =
            [StatusFetch attemptCount] @
            map (\<lambda>scannedRepo. DownloadTrigger (processScannedRepository scannedRepo)
                                 (processUpdatedVariantAnalysis env job snapshot))
              (newlyInState ApiRepoSucceeded reportedS snapshot) @
            [ChangeEvent (processUpdatedVariantAnalysis env job snapshot)]
      in if isTerminalStatus (api_status snapshot) then (effects, Inr JobFinished)
         else (effects @ [Sleep (sleepTime env)] @
               fst (monitor_loop env (Suc attemptCount)
                      (processUpdatedVariantAnalysis env job snapshot)
                      (reportedS @ map (\<lambda>r. api_id (api_repository r))
                                     (newlyInState ApiRepoSucceeded reportedS snapshot))
                      (reportedF @ map (\<lambda>r. api_id (api_repository r))
                                     (newlyInState ApiRepoFailed reportedF snapshot))),
               snd (monitor_loop env (Suc attemptCount)
                      (processUpdatedVariantAnalysis env job snapshot)
                      (reportedS @ map (\<lambda>r. api_id (api_repository r))
                                     (newlyInState ApiRepoSucceeded reportedS snapshot))
                      (reportedF @ map (\<lambda>r. api_id (api_repository r))
                                     (newlyInState ApiRepoFailed reportedF snapshot)))))"
  using assms
  by (subst monitor_loop.simps) (simp add: Let_def split: prod.splits)

lemma monitor_loop_failed:
  assumes "attemptCount \<le> maxAttemptCount env" and "\<not> shouldCancelMonitor env attemptCount"
    and "statusFetch env attemptCount = Inr snapshot" and "api_status snapshot = ApiFailed"
  shows "monitor_loop env attemptCount job reportedS reportedF =
     ([StatusFetch attemptCount,
       ChangeEvent (job\<lparr>status := Failed,
                        failureReason := map_option (processFailureReason env)
                                           (failure_reason snapshot)\<rparr>)],
      Inr JobFailed)"
  using assms by (subst monitor_loop.simps) simp

lemma monitor_loop_cancelled:
  assumes "attemptCount \<le> maxAttemptCount env" and "shouldCancelMonitor env attemptCount"
  shows "monitor_loop env attemptCount job reportedS reportedF = ([], Inr MonitorCancelled)"
  using assms by (subst monitor_loop.simps) simp





lemma triggeredIds_pass:
  "triggeredIds ([StatusFetch k] @
                 map (\<lambda>scannedRepo. DownloadTrigger (processScannedRepository scannedRepo) job)
                   delta @ [ChangeEvent job])
   = map (\<lambda>r. api_id (api_repository r)) delta"
  by (simp add: triggeredIds_def downloadTriggers_append downloadTriggers_map
      processScannedRepository_def comp_def)







text \<open>
  C3. If the cancellation predicate holds before the first poll, the monitor returns at
  once: no status is fetched, no change event is emitted and no download is triggered.
\<close>

theorem monitor_cancelled_before_first_poll:
  assumes "shouldCancelMonitor env 0"
  shows "monitor env job = ([], Inr MonitorCancelled)
       \<and> changeEvents (fst (monitor env job)) = []
       \<and> downloadTriggers (fst (monitor env job)) = []
       \<and> polls (fst (monitor env job)) = []"
  using assms by (simp add: monitor_def monitor_loop_cancelled)

theorem monitor_cancelled_before_first_poll_witness:
  "shouldCancelMonitor (mockMonitorEnv (\<lambda>n. True) changingResponses) 0
   \<and> monitor (mockMonitorEnv (\<lambda>n. True) changingResponses) sampleVariantAnalysis
       = ([], Inr MonitorCancelled)
   \<and> changeEvents (fst (monitor (mockMonitorEnv (\<lambda>n. True) changingResponses)
                            sampleVariantAnalysis)) = []"
proof -
  have cancel: "shouldCancelMonitor (mockMonitorEnv (\<lambda>n. True) changingResponses) 0"
    by (simp add: mockMonitorEnv_def)
  from monitor_cancelled_before_first_poll [OF cancel, of sampleVariantAnalysis] cancel
  show ?thesis by simp
qed

text \<open>
  C2. If the monitor is not cancelled before the first poll and the first fetch returns a
  snapshot whose top-level status is a failure, the run consists of that one fetch and
  one change event: the event carries the job with status \<open>Failed\<close> and, as failure
  classification, the failure-reason mapping applied to the raw failure reason of the
  snapshot. No download is triggered and no further poll is made.
\<close>

theorem monitor_failed_first_fetch:
  assumes "\<not> shouldCancelMonitor env 0" and "statusFetch env 0 = Inr snapshot"
    and "api_status snapshot = ApiFailed"
  shows "monitor env job =
           ([StatusFetch 0,
             ChangeEvent (job\<lparr>status := Failed,
                              failureReason := map_option (processFailureReason env)
                                                 (failure_reason snapshot)\<rparr>)],
            Inr JobFailed)
       \<and> changeEvents (fst (monitor env job)) =
           [job\<lparr>status := Failed,
                 failureReason := map_option (processFailureReason env)
                                    (failure_reason snapshot)\<rparr>]
       \<and> map status (changeEvents (fst (monitor env job))) = [Failed]
       \<and> map failureReason (changeEvents (fst (monitor env job))) =
           [map_option (processFailureReason env) (failure_reason snapshot)]
       \<and> downloadTriggers (fst (monitor env job)) = []
       \<and> polls (fst (monitor env job)) = [0]"
  using assms by (simp add: monitor_def monitor_loop_failed)

theorem monitor_failed_first_fetch_witness:
  "\<not> shouldCancelMonitor (mockMonitorEnv (\<lambda>n. False) (\<lambda>n. Inr failedResponse)) 0
   \<and> api_status failedResponse = ApiFailed
   \<and> monitor (mockMonitorEnv (\<lambda>n. False) (\<lambda>n. Inr failedResponse)) sampleVariantAnalysis =
       ([StatusFetch 0,
         ChangeEvent (sampleVariantAnalysis
                        \<lparr>status := Failed, failureReason := Some ''classified:internal_error''\<rparr>)],
        Inr JobFailed)
   \<and> downloadTriggers (fst (monitor (mockMonitorEnv (\<lambda>n. False) (\<lambda>n. Inr failedResponse))
                                sampleVariantAnalysis)) = []"
proof -
  have live: "\<not> shouldCancelMonitor (mockMonitorEnv (\<lambda>n. False) (\<lambda>n. Inr failedResponse)) 0"
    and fetched: "statusFetch (mockMonitorEnv (\<lambda>n. False) (\<lambda>n. Inr failedResponse)) 0
                  = Inr failedResponse"
    by (simp_all add: mockMonitorEnv_def)
  have failed: "api_status failedResponse = ApiFailed"
    by (simp add: failedResponse_def)
  have classified: "map_option
      (processFailureReason (mockMonitorEnv (\<lambda>n. False) (\<lambda>n. Inr failedResponse)))
      (failure_reason failedResponse) = Some ''classified:internal_error''"
    by (simp add: mockMonitorEnv_def failedResponse_def)
  from monitor_failed_first_fetch [OF live fetched failed, of sampleVariantAnalysis]
  show ?thesis unfolding classified using live failed by simp
qed

text \<open>
  C4. Let the monitor not be cancelled before the first poll and the first fetch return a
  snapshot with top-level status \<open>succeeded\<close> and seven repositories with the analysis
  statuses pending, pending, in progress, in progress, succeeded, succeeded, succeeded.
  Then the run is that one fetch, three download triggers and one change event: the
  triggers are those of the fifth, sixth and seventh repository, in this order (the order
  of the succeeded repositories in the snapshot), each with the processed repository and
  with the job as processed from the snapshot.
\<close>

theorem monitor_triggers_each_succeeded_repo:
  assumes live: "\<not> shouldCancelMonitor env 0" and fetched: "statusFetch env 0 = Inr snapshot"
    and top: "api_status snapshot = ApiSucceeded"
    and statuses: "map analysis_status (scanned_repositories snapshot) =
       [ApiRepoPending, ApiRepoPending, ApiRepoInProgress, ApiRepoInProgress,
        ApiRepoSucceeded, ApiRepoSucceeded, ApiRepoSucceeded]"
  shows "monitor env job =
           ([StatusFetch 0] @
            map (\<lambda>scannedRepo. DownloadTrigger (processScannedRepository scannedRepo)
                                 (processUpdatedVariantAnalysis env job snapshot))
              (drop 4 (scanned_repositories snapshot)) @
            [ChangeEvent (processUpdatedVariantAnalysis env job snapshot)],
            Inr JobFinished)
       \<and> downloadTriggers (fst (monitor env job)) =
           map (\<lambda>scannedRepo. (processScannedRepository scannedRepo,
                                processUpdatedVariantAnalysis env job snapshot))
             (filter (\<lambda>scannedRepo. analysis_status scannedRepo = ApiRepoSucceeded)
                (scanned_repositories snapshot))
       \<and> length (downloadTriggers (fst (monitor env job))) = 3
       \<and> filter (\<lambda>scannedRepo. analysis_status scannedRepo = ApiRepoSucceeded)
            (scanned_repositories snapshot) = drop 4 (scanned_repositories snapshot)"
proof -
  from statuses obtain r1 r2 r3 r4 r5 r6 r7 where
    repos: "scanned_repositories snapshot = [r1, r2, r3, r4, r5, r6, r7]"
    by (auto simp: map_eq_Cons_conv)
  with statuses have st: "analysis_status r1 = ApiRepoPending" "analysis_status r2 = ApiRepoPending"
    "analysis_status r3 = ApiRepoInProgress" "analysis_status r4 = ApiRepoInProgress"
    "analysis_status r5 = ApiRepoSucceeded" "analysis_status r6 = ApiRepoSucceeded"
    "analysis_status r7 = ApiRepoSucceeded"
    by simp_all
  have delta: "newlyInState ApiRepoSucceeded [] snapshot = [r5, r6, r7]"
    by (simp add: newlyInState_def repos st)
  have run: "monitor env job =
           ([StatusFetch 0] @
            map (\<lambda>scannedRepo. DownloadTrigger (processScannedRepository scannedRepo)
                                 (processUpdatedVariantAnalysis env job snapshot))
              [r5, r6, r7] @
            [ChangeEvent (processUpdatedVariantAnalysis env job snapshot)],
            Inr JobFinished)"
    unfolding monitor_def
    using monitor_loop_pass [OF _ live fetched, of job "[]" "[]"] top
    by (simp add: Let_def delta isTerminalStatus_def)
  show ?thesis
    unfolding run by (simp add: repos st)
qed

theorem monitor_triggers_each_succeeded_repo_witness:
  "map analysis_status (scanned_repositories succeededResponse) =
     [ApiRepoPending, ApiRepoPending, ApiRepoInProgress, ApiRepoInProgress,
      ApiRepoSucceeded, ApiRepoSucceeded, ApiRepoSucceeded]
   \<and> polls (fst (monitor (mockMonitorEnv (\<lambda>n. False) (\<lambda>n. Inr succeededResponse))
                      sampleVariantAnalysis)) = [0]
   \<and> triggeredIds (fst (monitor (mockMonitorEnv (\<lambda>n. False) (\<lambda>n. Inr succeededResponse))
                      sampleVariantAnalysis)) = [5, 6, 7]
   \<and> map snd (downloadTriggers (fst (monitor (mockMonitorEnv (\<lambda>n. False)
                                               (\<lambda>n. Inr succeededResponse))
                      sampleVariantAnalysis))) =
       replicate 3 (sampleProcessUpdated sampleVariantAnalysis succeededResponse)"
proof -
  define env where "env = mockMonitorEnv (\<lambda>n. False) (\<lambda>n. Inr succeededResponse)"
  have live: "\<not> shouldCancelMonitor env 0"
    and fetched: "statusFetch env 0 = Inr succeededResponse"
    and merge: "processUpdatedVariantAnalysis env = sampleProcessUpdated"
    by (simp_all add: env_def mockMonitorEnv_def)
  have top: "api_status succeededResponse = ApiSucceeded"
    by (simp add: succeededResponse_def createMockApiResponse_def)
  have statuses: "map analysis_status (scanned_repositories succeededResponse) =
     [ApiRepoPending, ApiRepoPending, ApiRepoInProgress, ApiRepoInProgress,
      ApiRepoSucceeded, ApiRepoSucceeded, ApiRepoSucceeded]"
    by (simp add: succeededResponse_def createMockApiResponse_def createMockScannedRepos_def)
  have ids: "map (\<lambda>r. api_id (api_repository r)) (drop 4 (scanned_repositories succeededResponse))
             = [5, 6, 7]"
    by (simp add: succeededResponse_def createMockApiResponse_def createMockScannedRepos_def)
  note triggered = monitor_triggers_each_succeeded_repo
      [OF live fetched top statuses, of sampleVariantAnalysis, unfolded merge]
  from triggered [THEN conjunct1]
  have run: "monitor env sampleVariantAnalysis =
           ([StatusFetch 0] @
            map (\<lambda>scannedRepo. DownloadTrigger (processScannedRepository scannedRepo)
                   (sampleProcessUpdated sampleVariantAnalysis succeededResponse))
              (drop 4 (scanned_repositories succeededResponse)) @
            [ChangeEvent (sampleProcessUpdated sampleVariantAnalysis succeededResponse)],
            Inr JobFinished)"
    by simp
  from triggered [THEN conjunct2, THEN conjunct2, THEN conjunct1]
  have three: "length (downloadTriggers (fst (monitor env sampleVariantAnalysis))) = 3" .
  have "polls (fst (monitor env sampleVariantAnalysis)) = [0]"
    unfolding run by (simp add: polls_append polls_map_trigger)
  moreover have "triggeredIds (fst (monitor env sampleVariantAnalysis)) = [5, 6, 7]"
    unfolding run fst_conv triggeredIds_pass by (rule ids)
  moreover have "map snd (downloadTriggers (fst (monitor env sampleVariantAnalysis))) =
       replicate (length (downloadTriggers (fst (monitor env sampleVariantAnalysis))))
         (sampleProcessUpdated sampleVariantAnalysis succeededResponse)"
    unfolding run
    by (simp add: downloadTriggers_append downloadTriggers_map comp_def map_replicate_const)
  ultimately show ?thesis
    using statuses three unfolding env_def by simp
qed

text \<open>
  A snapshot that reports the failure of the job is fetched but not diffed: a repository
  that it reports as succeeded is among the observed ones, and no download is triggered
  for it.
\<close>

lemma monitor_failed_snapshot_not_diffed:
  "uniqueRepositoryIds (mockMonitorEnv (\<lambda>n. False) (\<lambda>n. Inr failedResponse))
   \<and> polls (fst (monitor (mockMonitorEnv (\<lambda>n. False) (\<lambda>n. Inr failedResponse))
                      sampleVariantAnalysis)) = [0]
   \<and> length (downloadTriggers
               (fst (monitor (mockMonitorEnv (\<lambda>n. False) (\<lambda>n. Inr failedResponse))
                       sampleVariantAnalysis))) = 0
   \<and> card (observedSucceeded (mockMonitorEnv (\<lambda>n. False) (\<lambda>n. Inr failedResponse))
             (polls (fst (monitor (mockMonitorEnv (\<lambda>n. False) (\<lambda>n. Inr failedResponse))
                            sampleVariantAnalysis)))) = 1"
proof -
  define env where "env = mockMonitorEnv (\<lambda>n. False) (\<lambda>n. Inr failedResponse)"
  have live: "\<not> shouldCancelMonitor env 0"
    and fetched: "statusFetch env n = Inr failedResponse" for n
    by (simp_all add: env_def mockMonitorEnv_def)
  have failed: "api_status failedResponse = ApiFailed"
    by (simp add: failedResponse_def)
  have uniq: "uniqueRepositoryIds env"
    by (simp add: uniqueRepositoryIds_def fetched failedResponse_def createMockScannedRepos_def)
  have run: "monitor env sampleVariantAnalysis =
       ([StatusFetch 0,
         ChangeEvent (sampleVariantAnalysis
            \<lparr>status := Failed,
             failureReason := map_option (processFailureReason env)
                                (failure_reason failedResponse)\<rparr>)],
        Inr JobFailed)"
    unfolding monitor_def using live fetched failed by (simp add: monitor_loop_failed)
  have "succeededIds failedResponse = [1]"
    by (simp add: succeededIds_def failedResponse_def createMockScannedRepos_def)
  then have "observedSucceeded env [0] = {1}"
    by (simp add: observedSucceeded_def fetched)
  then show ?thesis
    using uniq unfolding env_def [symmetric] run by simp
qed





end
